theory Spec2Isabelle
  imports Main "HOL-Library.Word"
begin

section \<open>C library helpers used by the sources\<close>

text \<open>
  \<^verbatim>\<open>isalnum\<close>, \<^verbatim>\<open>isdigit\<close> and \<^verbatim>\<open>isspace\<close> of the C locale, on the byte value of
  a character. A \<^verbatim>\<open>char\<close> above 127 is not alphanumeric in the C locale.
\<close>

definition isdigit :: "char \<Rightarrow> bool" where
  "isdigit c = (let k = (of_char c :: nat) in 48 \<le> k \<and> k \<le> 57)"

definition isalnum :: "char \<Rightarrow> bool" where
  "isalnum c = (let k = (of_char c :: nat) in
     (48 \<le> k \<and> k \<le> 57) \<or> (65 \<le> k \<and> k \<le> 90) \<or> (97 \<le> k \<and> k \<le> 122))"

definition isspace :: "char \<Rightarrow> bool" where
  "isspace c = (let k = (of_char c :: nat) in k = 32 \<or> (9 \<le> k \<and> k \<le> 13))"

text \<open>\<^verbatim>\<open>std::to_string\<close> on a non-negative \<^verbatim>\<open>int\<close>: its decimal digits.\<close>

definition digit_char :: "nat \<Rightarrow> char" where
  "digit_char d = ''0123456789'' ! d"

fun to_string :: "nat \<Rightarrow> string" where
  "to_string n =
     (if n < 10 then [digit_char n]
      else to_string (n div 10) @ [digit_char (n mod 10)])"

declare to_string.simps [simp del]

text \<open>
  \<^verbatim>\<open>atoi\<close>, as the C library computes it, \<^verbatim>\<open>(int) strtol(s, NULL, 10)\<close>: optional
  white space, an optional sign, then decimal digits; \<^verbatim>\<open>strtol\<close> keeps the number within
  the 64 bits of a \<^verbatim>\<open>long\<close>, and the conversion to \<^verbatim>\<open>int\<close> keeps its low 32 bits, read
  as a signed number.
\<close>

definition digit_val :: "char \<Rightarrow> int" where
  "digit_val c = int (of_char c) - 48"

fun atoi_digits :: "int \<Rightarrow> string \<Rightarrow> int" where
  "atoi_digits acc [] = acc"
| "atoi_digits acc (c # cs) =
     (if isdigit c then atoi_digits (10 * acc + digit_val c) cs else acc)"

definition strtol :: "string \<Rightarrow> int" where
  "strtol s =
     (let v = (case dropWhile isspace s of
                 [] \<Rightarrow> 0
               | c # cs \<Rightarrow>
                   if c = CHR ''-'' then - atoi_digits 0 cs
                   else if c = CHR ''+'' then atoi_digits 0 cs
                   else atoi_digits 0 (c # cs))
      in max (- (2 ^ 63)) (min (2 ^ 63 - 1) v))"

definition atoi :: "string \<Rightarrow> int" where
  "atoi s = sint (word_of_int (strtol s) :: 32 word)"

text \<open>
  Modelled from the spec: \<^verbatim>\<open>to_lower\<close> of \<^verbatim>\<open>utils.h\<close>, which is not among the sources; the
  specification says that statement names are normalised to lower case. Here it lowers
  the letters \<^verbatim>\<open>A\<close> to \<^verbatim>\<open>Z\<close> and leaves every other character as it is.
\<close>

definition tolower :: "char \<Rightarrow> char" where
  "tolower c = (let k = (of_char c :: nat) in if 65 \<le> k \<and> k \<le> 90 then char_of (k + 32) else c)"

definition to_lower :: "string \<Rightarrow> string" where
  "to_lower s = map tolower s"

section \<open>The PostgreSQL driver: parameter markers\<close>

text \<open>
  \<^verbatim>\<open>pgsql_fixup_parameters\<close> (DbInterfacePGSQL.cpp). The loop reads the statement one
  character at a time; its local variables \<^verbatim>\<open>n\<close>, \<^verbatim>\<open>in_single_quoted_string\<close>,
  \<^verbatim>\<open>in_double_quoted_string\<close>, \<^verbatim>\<open>in_param_id\<close> and \<^verbatim>\<open>out_sql\<close> are the arguments of
  \<open>fixup_loop\<close>, in this order, before the rest of the input. \<open>CHR 0x22\<close> is the double
  quote, \<open>CHR 0x27\<close> the single quote. The counter \<^verbatim>\<open>n\<close> is an \<^verbatim>\<open>int\<close> in the source and a
  natural number here: it counts the markers of one statement.
\<close>

fun fixup_loop :: "nat \<Rightarrow> bool \<Rightarrow> bool \<Rightarrow> bool \<Rightarrow> string \<Rightarrow> string \<Rightarrow> string" where
  "fixup_loop n sq dq ip out_sql [] = out_sql"
| "fixup_loop n sq dq ip out_sql (c # cs) =
     (if ip \<and> isalnum c then fixup_loop n sq dq ip out_sql cs
      else if c = CHR 0x22 then fixup_loop n sq (\<not> dq) False (out_sql @ [c]) cs
      else if c = CHR 0x27 then fixup_loop n (\<not> sq) dq False (out_sql @ [c]) cs
      else if c = CHR ''?'' \<or> c = CHR '':'' then
        (if \<not> sq \<and> \<not> dq
         then fixup_loop (n + 1) sq dq True (out_sql @ (CHR ''$'' # to_string n)) cs
         else fixup_loop n sq dq False (out_sql @ [c]) cs)
      else fixup_loop n sq dq False (out_sql @ [c]) cs)"

definition pgsql_fixup_parameters :: "string \<Rightarrow> string" where
  "pgsql_fixup_parameters sql = fixup_loop 1 False False False [] sql"

text \<open>
  Modelled from the spec: the rewriting as the specification words it. A quoted region
  opens at a single or a double quote and closes at the next quote of the same kind (the
  other kind of quote is an ordinary character inside it); \<open>sq\<close> and \<open>dq\<close> say which kind
  of region is open. Outside quoted regions a \<^verbatim>\<open>?\<close> marker is the character alone, and a
  \<^verbatim>\<open>:name\<close> marker is a colon with the name directly after it, a name being a non-empty
  run of letters, digits, underscores and hyphens (as host variables are written); the
  cast operator \<^verbatim>\<open>::\<close> and a colon with no name after it are no markers. Markers become
  \<^verbatim>\<open>$n\<close>, numbered from 1 in order of appearance; every other character is copied.
\<close>

definition is_name_char :: "char \<Rightarrow> bool" where
  "is_name_char c = (isalnum c \<or> c = CHR ''_'' \<or> c = CHR ''-'')"

function spec_fixup :: "nat \<Rightarrow> bool \<Rightarrow> bool \<Rightarrow> string \<Rightarrow> string" where
  "spec_fixup n sq dq [] = []"
| "spec_fixup n sq dq (c # cs) =
     (if sq then c # spec_fixup n (c \<noteq> CHR 0x27) False cs
      else if dq then c # spec_fixup n False (c \<noteq> CHR 0x22) cs
      else if c = CHR 0x27 then c # spec_fixup n True False cs
      else if c = CHR 0x22 then c # spec_fixup n False True cs
      else if c = CHR ''?'' then (CHR ''$'' # to_string n) @ spec_fixup (n + 1) False False cs
      else if c = CHR '':'' \<and> take 1 cs = '':''
        then c # CHR '':'' # spec_fixup n False False (drop 1 cs)
      else if c = CHR '':'' \<and> takeWhile is_name_char cs \<noteq> []
        then (CHR ''$'' # to_string n)
             @ spec_fixup (n + 1) False False (dropWhile is_name_char cs)
      else c # spec_fixup n False False cs)"
  by pat_completeness auto
termination
  by (relation "measure (\<lambda>(n, sq, dq, s). length s)")
     (auto simp: less_Suc_eq_le length_dropWhile_le)

text \<open>
  What the loop does: a marker is a \<^verbatim>\<open>?\<close> or a \<^verbatim>\<open>:\<close> outside quoted regions together
  with the longest run of alphanumeric characters directly after it.
\<close>

function rewrite_markers :: "nat \<Rightarrow> bool \<Rightarrow> bool \<Rightarrow> string \<Rightarrow> string" where
  "rewrite_markers n sq dq [] = []"
| "rewrite_markers n sq dq (c # cs) =
     (if c = CHR 0x22 then c # rewrite_markers n sq (\<not> dq) cs
      else if c = CHR 0x27 then c # rewrite_markers n (\<not> sq) dq cs
      else if (c = CHR ''?'' \<or> c = CHR '':'') \<and> \<not> sq \<and> \<not> dq
        then (CHR ''$'' # to_string n) @ rewrite_markers (n + 1) sq dq (dropWhile isalnum cs)
      else c # rewrite_markers n sq dq cs)"
  by pat_completeness auto
termination
  by (relation "measure (\<lambda>(n, sq, dq, s). length s)")
     (auto simp: less_Suc_eq_le length_dropWhile_le)

section \<open>The PostgreSQL driver: data\<close>

text \<open>
  The codes a driver call returns (\<^verbatim>\<open>DBERR_*\<close>). The header that gives them numbers is
  not among the sources, so a call's return value is a constructor, and the number
  stored in \<^verbatim>\<open>last_rc\<close> is read through \<open>dberr_code\<close>, a parameter.
\<close>

datatype dberr =
    DBERR_NO_ERROR
  | DBERR_CONNECTION_FAILED
  | DBERR_SQL_ERROR
  | DBERR_INTERNAL_ERR
  | DBERR_PREPARE_FAILED
  | DBERR_CLOSE_CURSOR_FAILED
  | DBERR_MOVE_TO_FIRST_FAILED
  | DBERR_NO_DATA

text \<open>
  What ends a call without a return value: \<^verbatim>\<open>std::vector::at\<close> out of range, a null
  \<^verbatim>\<open>shared_ptr\<close> dereferenced, \<^verbatim>\<open>memcpy\<close> reading past the end of a parameter value,
  \<^verbatim>\<open>new char[]\<close> with a negative size, \<^verbatim>\<open>std::get\<close> on a variant that holds another
  type.
\<close>

datatype fault =
    Out_of_range
  | Null_dereference
  | Buffer_overread
  | Bad_array_new_length
  | Bad_variant_access

text \<open>
  libpq. A \<^verbatim>\<open>PGresult\<close> is the record of what its accessors return; a null
  \<^verbatim>\<open>PGresult*\<close> is \<open>None\<close>, and the accessors answer on it as libpq documents. A cell
  of \<open>tuples\<close> is \<open>None\<close> for SQL NULL.
\<close>

definition PGRES_COMMAND_OK :: int where "PGRES_COMMAND_OK = 1"
definition PGRES_TUPLES_OK :: int where "PGRES_TUPLES_OK = 2"
definition PGRES_FATAL_ERROR :: int where "PGRES_FATAL_ERROR = 7"
definition CONNECTION_OK :: int where "CONNECTION_OK = 0"
definition OID_BYTEA :: nat where "OID_BYTEA = 17"
definition OID_NUMERIC :: nat where "OID_NUMERIC = 1700"
definition OID_VARCHAR :: nat where "OID_VARCHAR = 1043"
definition DECODE_BINARY_ON :: int where "DECODE_BINARY_ON = 1"
definition DECODE_BINARY_OFF :: int where "DECODE_BINARY_OFF = 0"

record PGresult =
  result_status :: int
  result_error_message :: string
  result_sqlstate :: "string option"
  cmd_tuples :: string
  tuples :: "string option list list"
  ftypes :: "nat list"

definition PQresultStatus :: "PGresult option \<Rightarrow> int" where
  "PQresultStatus r = (case r of None \<Rightarrow> PGRES_FATAL_ERROR | Some x \<Rightarrow> result_status x)"

definition PQresultErrorMessage :: "PGresult option \<Rightarrow> string" where
  "PQresultErrorMessage r = (case r of None \<Rightarrow> [] | Some x \<Rightarrow> result_error_message x)"

definition PQresultErrorField_SQLSTATE :: "PGresult option \<Rightarrow> string option" where
  "PQresultErrorField_SQLSTATE r = (case r of None \<Rightarrow> None | Some x \<Rightarrow> result_sqlstate x)"

definition PQcmdTuples :: "PGresult option \<Rightarrow> string option" where
  "PQcmdTuples r = (case r of None \<Rightarrow> Some [] | Some x \<Rightarrow> Some (cmd_tuples x))"

definition in_range :: "PGresult \<Rightarrow> int \<Rightarrow> int \<Rightarrow> bool" where
  "in_range x row col =
     (0 \<le> row \<and> nat row < length (tuples x) \<and> 0 \<le> col \<and> nat col < length (tuples x ! nat row))"

definition PQgetvalue :: "PGresult option \<Rightarrow> int \<Rightarrow> int \<Rightarrow> string option" where
  "PQgetvalue r row col =
     (case r of
        None \<Rightarrow> None
      | Some x \<Rightarrow>
          if in_range x row col
          then (case tuples x ! nat row ! nat col of None \<Rightarrow> Some [] | Some v \<Rightarrow> Some v)
          else None)"

definition PQgetisnull :: "PGresult option \<Rightarrow> int \<Rightarrow> int \<Rightarrow> bool" where
  "PQgetisnull r row col =
     (case r of
        None \<Rightarrow> True
      | Some x \<Rightarrow> if in_range x row col then tuples x ! nat row ! nat col = None else True)"

definition PQftype :: "PGresult option \<Rightarrow> int \<Rightarrow> nat" where
  "PQftype r col =
     (case r of
        None \<Rightarrow> 0
      | Some x \<Rightarrow> if 0 \<le> col \<and> nat col < length (ftypes x) then ftypes x ! nat col else 0)"

definition pg_get_sqlstate :: "PGresult option \<Rightarrow> string" where
  "pg_get_sqlstate r = (case PQresultErrorField_SQLSTATE r of Some c \<Rightarrow> c | None \<Rightarrow> ''00000'')"

text \<open>\<^verbatim>\<open>strlen\<close> of a C string held as its bytes: the bytes before the first NUL.\<close>

definition strlen :: "string \<Rightarrow> nat" where
  "strlen s = length (takeWhile (\<lambda>c. c \<noteq> CHR 0x00) s)"

text \<open>
  What is sent to the server, in the order of the calls: the statement-issuing libpq
  functions with their arguments (\<^verbatim>\<open>PQexecParams\<close>: query, parameter types, values,
  lengths, formats; \<^verbatim>\<open>PQexecPrepared\<close>: name, values, lengths, formats).
\<close>

datatype wire_cmd =
    PQexec string
  | PQexecParams string "nat list" "string option list" "int list" "int list"
  | PQprepare string string
  | PQexecPrepared string "string option list" "int list" "int list"
  | PQsetClientEncoding string

text \<open>
  The connection options, the data source and the COBOL types, as \<^verbatim>\<open>connect\<close>,
  \<^verbatim>\<open>prepare\<close>, \<^verbatim>\<open>_pgsql_exec\<close> and \<^verbatim>\<open>get_pgsql_type\<close> read them; their headers are not
  among the sources. Of \<^verbatim>\<open>AutoCommitMode\<close> the driver tests for \<^verbatim>\<open>Off\<close> only.
\<close>

datatype AutoCommitMode = Off | On

record IConnectionOptions =
  autocommit :: AutoCommitMode
  fixup_parameters :: bool
  client_encoding :: string

record IDataSourceInfo =
  getDbName :: string
  getHost :: string
  getPort :: int
  getUsername :: string
  getPassword :: string
  getOptions :: "string \<rightharpoonup> string"

record PGconn =
  conn_status :: int

datatype CobolVarType =
    COBOL_TYPE_UNSIGNED_NUMBER
  | COBOL_TYPE_SIGNED_NUMBER_TC
  | COBOL_TYPE_SIGNED_NUMBER_TS
  | COBOL_TYPE_SIGNED_NUMBER_LC
  | COBOL_TYPE_SIGNED_NUMBER_LS
  | COBOL_TYPE_UNSIGNED_NUMBER_PD
  | COBOL_TYPE_SIGNED_NUMBER_PD
  | COBOL_TYPE_UNSIGNED_BINARY
  | COBOL_TYPE_SIGNED_BINARY
  | COBOL_TYPE_ALPHANUMERIC
  | COBOL_TYPE_JAPANESE

text \<open>
  What the driver uses and the sources do not hold. \<open>backend\<close> is the server behind
  libpq: its answer to a command, given the commands sent before it. \<open>connectdb\<close> is
  \<^verbatim>\<open>PQconnectdbParams\<close> on the connection parameters, \<open>client_encoding_rc\<close> the return
  value of \<^verbatim>\<open>PQsetClientEncoding\<close>, \<open>PQerrorMessage\<close> the connection's error text. The
  predicates on statements are those of \<^verbatim>\<open>utils.h\<close>, \<open>CBL_FIELD_IS_BINARY\<close> and
  \<open>DB_NULL\<close> those of the runtime's headers, \<open>PQunescapeBytea\<close> libpq's (\<open>None\<close> when
  it returns null). \<open>in_transaction\<close> is the state of the session on the server, which
  the driver never reads: whether a transaction is open after the commands sent.
\<close>

record extern =
  backend :: "wire_cmd list \<Rightarrow> wire_cmd \<Rightarrow> PGresult option"
  connectdb :: "(string \<rightharpoonup> string) \<Rightarrow> PGconn option"
  client_encoding_rc :: "wire_cmd list \<Rightarrow> string \<Rightarrow> int"
  PQerrorMessage :: "wire_cmd list \<Rightarrow> string"
  is_tx_termination_statement :: "string \<Rightarrow> bool"
  is_update_or_delete_statement :: "string \<Rightarrow> bool"
  CBL_FIELD_IS_BINARY :: "32 word \<Rightarrow> bool"
  DB_NULL :: "64 word"
  PQunescapeBytea :: "string \<Rightarrow> string option"
  dberr_code :: "dberr \<Rightarrow> int"
  in_transaction :: "wire_cmd list \<Rightarrow> bool"

text \<open>
  A server that opens a transaction whenever it accepts \<^verbatim>\<open>BEGIN TRANSACTION\<close> or
  \<^verbatim>\<open>START TRANSACTION\<close>.
\<close>

definition starts_transactions :: "extern \<Rightarrow> bool" where
  "starts_transactions X =
     (\<forall>h q. (q = ''BEGIN TRANSACTION'' \<or> q = ''START TRANSACTION'')
            \<and> PQresultStatus (backend X h (PQexec q)) = PGRES_COMMAND_OK
            \<longrightarrow> in_transaction X (h @ [PQexec q]))"

text \<open>
  \<^verbatim>\<open>PGResultSetData\<close>. The driver holds these objects through shared pointers and
  compares the pointers; \<open>rs_id\<close> is the identity of the object, given at
  \<^verbatim>\<open>make_shared\<close> from the counter \<open>next_rs\<close> of the driver.
\<close>

record PGResultSetData =
  rs_id :: nat
  resultset :: "PGresult option"
  current_row_index :: int
  num_rows :: int

text \<open>
  Modelled from the spec: \<^verbatim>\<open>ICursor\<close> (\<^verbatim>\<open>ICursor.h\<close> is not among the sources), a cursor
  record with its name and its private result-set data; \<^verbatim>\<open>clearPrivateData\<close> empties
  the latter, \<^verbatim>\<open>setPrivateData\<close> stores into it.
\<close>

record cursor =
  getName :: string
  getPrivateData :: "PGResultSetData option"


definition setPrivateData :: "PGResultSetData option \<Rightarrow> cursor \<Rightarrow> cursor" where
  "setPrivateData d c = c\<lparr>getPrivateData := d\<rparr>"

text \<open>
  The driver object. \<open>sent\<close> and \<open>next_rs\<close> are not fields of the class: \<open>sent\<close>
  records the commands issued to the server so far, \<open>next_rs\<close> numbers the result-set
  objects. A null \<^verbatim>\<open>shared_ptr\<close> is \<open>None\<close>; an entry of \<open>prepared_stmts\<close> that holds a
  null pointer is \<open>Some None\<close>.
\<close>

record DbInterfacePGSQL =
  connaddr :: "PGconn option"
  data_source_info :: "IDataSourceInfo option"
  connection_opts :: "IConnectionOptions option"
  current_resultset_data :: "PGResultSetData option"
  last_rc :: int
  last_error :: string
  last_state :: string
  prepared_stmts :: "string \<rightharpoonup> PGResultSetData option"
  decode_binary :: int
  use_native_cursors :: bool
  sent :: "wire_cmd list"
  next_rs :: nat

section \<open>The PostgreSQL driver: operations\<close>

definition get_error_code :: "DbInterfacePGSQL \<Rightarrow> int" where
  "get_error_code st = last_rc st"

definition get_state :: "DbInterfacePGSQL \<Rightarrow> string" where
  "get_state st = last_state st"

definition pgsqlSetError :: "int \<Rightarrow> string \<Rightarrow> string \<Rightarrow> DbInterfacePGSQL \<Rightarrow> DbInterfacePGSQL" where
  "pgsqlSetError err_code sqlstate err_msg st =
     st\<lparr>last_error := err_msg, last_rc := err_code, last_state := sqlstate\<rparr>"

text \<open>\<^verbatim>\<open>get_num_rows(PGresult*)\<close>.\<close>

definition get_num_rows :: "PGresult option \<Rightarrow> int" where
  "get_num_rows r =
     (if r = None then - 1
      else case PQcmdTuples r of None \<Rightarrow> - 1 | Some c \<Rightarrow> atoi c)"

definition get_pgsql_type :: "extern \<Rightarrow> CobolVarType \<Rightarrow> 32 word \<Rightarrow> nat" where
  "get_pgsql_type X t flags =
     (case t of
        COBOL_TYPE_ALPHANUMERIC \<Rightarrow> if CBL_FIELD_IS_BINARY X flags then OID_BYTEA else OID_VARCHAR
      | COBOL_TYPE_JAPANESE \<Rightarrow> if CBL_FIELD_IS_BINARY X flags then OID_BYTEA else OID_VARCHAR
      | _ \<Rightarrow> OID_NUMERIC)"

text \<open>
  The sending of one command: the server's answer, and the driver with the command
  recorded.
\<close>

definition pq_send :: "extern \<Rightarrow> wire_cmd \<Rightarrow> DbInterfacePGSQL \<Rightarrow> PGresult option \<times> DbInterfacePGSQL" where
  "pq_send X cmd st = (backend X (sent st) cmd, st\<lparr>sent := sent st @ [cmd]\<rparr>)"

text \<open>
  \<^verbatim>\<open>last_rc = PQresultStatus(r); last_error = PQresultErrorMessage(r);
  last_state = pg_get_sqlstate(r)\<close>, the three assignments that follow every command.
\<close>

definition set_last :: "PGresult option \<Rightarrow> DbInterfacePGSQL \<Rightarrow> DbInterfacePGSQL" where
  "set_last r st =
     st\<lparr>last_rc := PQresultStatus r, last_error := PQresultErrorMessage r,
        last_state := pg_get_sqlstate r\<rparr>"

text \<open>\<^verbatim>\<open>wk_rs && wk_rs == current_resultset_data\<close>: the same object, and not null.\<close>

definition same_object :: "PGResultSetData option \<Rightarrow> PGResultSetData option \<Rightarrow> bool" where
  "same_object a b =
     (case a of None \<Rightarrow> False
      | Some x \<Rightarrow> (case b of None \<Rightarrow> False | Some y \<Rightarrow> rs_id x = rs_id y))"

text \<open>
  The loop of \<^verbatim>\<open>_pgsql_exec_params\<close> and \<^verbatim>\<open>exec_prepared\<close> that fills the libpq
  parameter arrays, for index \<open>i\<close>: the type, the value (\<open>None\<close> for a null pointer),
  the length and the format. \<^verbatim>\<open>paramLengths.at(i)\<close> throws when \<open>i\<close> is out of range.
  \<^verbatim>\<open>pgsqlParamArray::assign(int i, char* d, int l)\<close> and \<^verbatim>\<open>param_lengths[i]\<close> take the
  length as an \<^verbatim>\<open>int\<close>, the low 32 bits of \<^verbatim>\<open>paramLengths[i]\<close> read as a signed number;
  \<^verbatim>\<open>assign\<close> allocates \<^verbatim>\<open>l + 1\<close> bytes, which throws for \<^verbatim>\<open>l\<close> below -1, and copies
  \<^verbatim>\<open>l\<close> bytes of the value, reading past its end when the value is shorter or \<^verbatim>\<open>l\<close> is
  -1 (the data pointer of an empty value is taken as not null).
\<close>

definition marshal_param ::
  "extern \<Rightarrow> CobolVarType list \<Rightarrow> string list \<Rightarrow> 64 word list \<Rightarrow> 32 word list \<Rightarrow> nat
    \<Rightarrow> fault + (nat \<times> string option \<times> int \<times> int)" where
  "marshal_param X paramTypes paramValues paramLengths paramFlags i =
     (if length paramLengths \<le> i then Inl Out_of_range
      else
        (let l = sint (ucast (paramLengths ! i) :: 32 word)
         in if paramLengths ! i \<noteq> DB_NULL X \<and> l < - 1 then Inl Bad_array_new_length
            else if paramLengths ! i \<noteq> DB_NULL X
                    \<and> (l = - 1 \<or> int (length (paramValues ! i)) < l)
              then Inl Buffer_overread
            else Inr
              (get_pgsql_type X (paramTypes ! i) (paramFlags ! i),
               if paramLengths ! i \<noteq> DB_NULL X
                 then Some (take (nat l) (paramValues ! i)) else None,
               if paramLengths ! i \<noteq> DB_NULL X then l else 0,
               if CBL_FIELD_IS_BINARY X (paramFlags ! i) then 1 else 0)))"

fun collect :: "(nat \<Rightarrow> fault + 'a) \<Rightarrow> nat list \<Rightarrow> fault + 'a list" where
  "collect f [] = Inr []"
| "collect f (i # is) =
     (case f i of
        Inl e \<Rightarrow> Inl e
      | Inr p \<Rightarrow> (case collect f is of Inl e \<Rightarrow> Inl e | Inr ps \<Rightarrow> Inr (p # ps)))"

definition marshal_params ::
  "extern \<Rightarrow> CobolVarType list \<Rightarrow> string list \<Rightarrow> 64 word list \<Rightarrow> 32 word list
    \<Rightarrow> fault + (nat \<times> string option \<times> int \<times> int) list" where
  "marshal_params X paramTypes paramValues paramLengths paramFlags =
     collect (marshal_param X paramTypes paramValues paramLengths paramFlags)
       [0 ..< length paramValues]"

text \<open>
  \<^verbatim>\<open>DbInterfacePGSQL::_pgsql_exec\<close>. The result is the return code, the cursor (whose
  private data the call may set) and the driver afterwards.
\<close>

definition pgsql_exec ::
  "extern \<Rightarrow> cursor option \<Rightarrow> string \<Rightarrow> DbInterfacePGSQL
    \<Rightarrow> fault + (dberr \<times> cursor option \<times> DbInterfacePGSQL)" where
  "pgsql_exec X crsr query st0 =
     (let wk_rs0 = (case crsr of Some c \<Rightarrow> getPrivateData c | None \<Rightarrow> current_resultset_data st0);
          st1 = (if same_object wk_rs0 (current_resultset_data st0)
                 then st0\<lparr>current_resultset_data := None\<rparr> else st0);
          (res, st2) = pq_send X (PQexecParams query [] [] [] []) st1;
          wk_rs = \<lparr>rs_id = next_rs st2, resultset = res, current_row_index = - 1, num_rows = 0\<rparr>;
          st3 = set_last res (st2\<lparr>next_rs := Suc (next_rs st2)\<rparr>)
      in case connection_opts st3 of
           None \<Rightarrow> Inl Null_dereference
         | Some co \<Rightarrow>
             (let trapped = (autocommit co = Off \<and> is_tx_termination_statement X query);
                  st4 = (if trapped then st3\<lparr>current_resultset_data := None\<rparr> else st3)
              in if trapped \<and> last_rc st4 = PGRES_COMMAND_OK then
                   (let (new_tx_rs, st5) = pq_send X (PQexec ''START TRANSACTION'') st4;
                        st6 = set_last new_tx_rs st5
                    in Inr (if last_rc st6 \<noteq> PGRES_COMMAND_OK then DBERR_SQL_ERROR
                            else DBERR_NO_ERROR, crsr, st6))
                 else if last_rc st4 = PGRES_COMMAND_OK \<and> is_update_or_delete_statement X query
                         \<and> get_num_rows (resultset wk_rs) \<le> 0 then
                   Inr (DBERR_SQL_ERROR, crsr, st4\<lparr>last_rc := 100\<rparr>)
                 else if last_rc st4 = PGRES_COMMAND_OK \<or> last_rc st4 = PGRES_TUPLES_OK then
                   (case crsr of
                      Some c \<Rightarrow> Inr (DBERR_NO_ERROR, Some (setPrivateData (Some wk_rs) c), st4)
                    | None \<Rightarrow> Inr (DBERR_NO_ERROR, None, st4\<lparr>current_resultset_data := Some wk_rs\<rparr>))
                 else Inr (DBERR_SQL_ERROR, crsr, st4\<lparr>last_rc := - (10000 + last_rc st4)\<rparr>)))"

definition exec :: "extern \<Rightarrow> string \<Rightarrow> DbInterfacePGSQL \<Rightarrow> fault + (dberr \<times> DbInterfacePGSQL)" where
  "exec X query st =
     (case pgsql_exec X None query st of
        Inl e \<Rightarrow> Inl e
      | Inr (rc, c, st') \<Rightarrow> Inr (rc, st'))"

text \<open>\<^verbatim>\<open>DbInterfacePGSQL::_pgsql_exec_params\<close>.\<close>

definition pgsql_exec_params ::
  "extern \<Rightarrow> cursor option \<Rightarrow> string \<Rightarrow> CobolVarType list \<Rightarrow> string list \<Rightarrow> 64 word list
    \<Rightarrow> 32 word list \<Rightarrow> DbInterfacePGSQL \<Rightarrow> fault + (dberr \<times> cursor option \<times> DbInterfacePGSQL)" where
  "pgsql_exec_params X crsr query paramTypes paramValues paramLengths paramFlags st0 =
     (let wk_rs0 = (case crsr of Some c \<Rightarrow> getPrivateData c | None \<Rightarrow> current_resultset_data st0)
      in if length paramTypes \<noteq> length paramValues \<or> length paramTypes \<noteq> length paramFlags then
           Inr (DBERR_INTERNAL_ERR, crsr,
                st0\<lparr>last_error := ''Internal error: parameter count mismatch'',
                    last_rc := dberr_code X DBERR_INTERNAL_ERR\<rparr>)
         else
           (case marshal_params X paramTypes paramValues paramLengths paramFlags of
              Inl e \<Rightarrow> Inl e
            | Inr ps \<Rightarrow>
               (let st1 = (if same_object wk_rs0 (current_resultset_data st0)
                           then st0\<lparr>current_resultset_data := None\<rparr> else st0);
                    (res, st2) = pq_send X
                       (PQexecParams query (map fst ps) (map (fst \<circ> snd) ps)
                          (map (fst \<circ> snd \<circ> snd) ps) (map (snd \<circ> snd \<circ> snd) ps)) st1;
                    wk_rs = \<lparr>rs_id = next_rs st2, resultset = res, current_row_index = - 1,
                             num_rows = get_num_rows res\<rparr>;
                    st3 = set_last res (st2\<lparr>next_rs := Suc (next_rs st2)\<rparr>)
                in case connection_opts st3 of
                     None \<Rightarrow> Inl Null_dereference
                   | Some co \<Rightarrow>
                       (let trapped = (autocommit co = Off \<and> is_tx_termination_statement X query);
                            st4 = (if trapped then st3\<lparr>current_resultset_data := None\<rparr> else st3)
                        in if trapped \<and> last_rc st4 = PGRES_COMMAND_OK then
                             (let (new_tx_rs, st5) = pq_send X (PQexec ''START TRANSACTION'') st4;
                                  st6 = set_last new_tx_rs st5
                              in Inr (if last_rc st6 \<noteq> PGRES_COMMAND_OK then DBERR_SQL_ERROR
                                      else DBERR_NO_ERROR, crsr, st6))
                           else if last_rc st4 = PGRES_COMMAND_OK
                                   \<and> is_update_or_delete_statement X query \<and> num_rows wk_rs \<le> 0 then
                             Inr (DBERR_SQL_ERROR, crsr, st4\<lparr>last_rc := 100\<rparr>)
                           else if last_rc st4 = PGRES_COMMAND_OK \<or> last_rc st4 = PGRES_TUPLES_OK then
                             (case crsr of
                                Some c \<Rightarrow>
                                  Inr (DBERR_NO_ERROR, Some (setPrivateData (Some wk_rs) c), st4)
                              | None \<Rightarrow>
                                  Inr (DBERR_NO_ERROR, None,
                                       st4\<lparr>current_resultset_data := Some wk_rs\<rparr>))
                           else Inr (DBERR_SQL_ERROR, crsr,
                                     st4\<lparr>last_rc := - (10000 + last_rc st4)\<rparr>)))))"

definition exec_params ::
  "extern \<Rightarrow> string \<Rightarrow> CobolVarType list \<Rightarrow> string list \<Rightarrow> 64 word list \<Rightarrow> 32 word list
    \<Rightarrow> DbInterfacePGSQL \<Rightarrow> fault + (dberr \<times> DbInterfacePGSQL)" where
  "exec_params X query paramTypes paramValues paramLengths paramFlags st =
     (case pgsql_exec_params X None query paramTypes paramValues paramLengths paramFlags st of
        Inl e \<Rightarrow> Inl e
      | Inr (rc, c, st') \<Rightarrow> Inr (rc, st'))"

text \<open>\<^verbatim>\<open>DbInterfacePGSQL::prepare\<close>.\<close>

definition prepare ::
  "extern \<Rightarrow> string \<Rightarrow> string \<Rightarrow> DbInterfacePGSQL \<Rightarrow> fault + (dberr \<times> DbInterfacePGSQL)" where
  "prepare X stmt_name0 query st =
     (let stmt_name = to_lower stmt_name0
      in if prepared_stmts st stmt_name \<noteq> None then Inr (DBERR_PREPARE_FAILED, st)
         else
           (case connection_opts st of
              None \<Rightarrow> Inl Null_dereference
            | Some co \<Rightarrow>
               (let prepared_sql = (if fixup_parameters co then pgsql_fixup_parameters query
                                    else query);
                    (res, st1) = pq_send X (PQprepare stmt_name prepared_sql) st;
                    st2 = set_last res st1
                in if last_rc st2 \<noteq> PGRES_COMMAND_OK then Inr (DBERR_PREPARE_FAILED, st2)
                   else Inr (DBERR_NO_ERROR,
                             st2\<lparr>prepared_stmts := (prepared_stmts st2)(stmt_name \<mapsto> None)\<rparr>))))"

text \<open>
  \<^verbatim>\<open>DbInterfacePGSQL::exec_prepared\<close>. The source tests the parameter counts twice, with
  the same condition; the second test can never succeed after the first and is kept
  here as it stands.
\<close>

definition exec_prepared ::
  "extern \<Rightarrow> string \<Rightarrow> CobolVarType list \<Rightarrow> string list \<Rightarrow> 64 word list \<Rightarrow> 32 word list
    \<Rightarrow> DbInterfacePGSQL \<Rightarrow> fault + (dberr \<times> DbInterfacePGSQL)" where
  "exec_prepared X stmt_name0 paramTypes paramValues paramLengths paramFlags st =
     (let stmt_name = to_lower stmt_name0;
          mismatch = st\<lparr>last_error := ''Internal error: parameter count mismatch'',
                        last_rc := dberr_code X DBERR_INTERNAL_ERR\<rparr>
      in if prepared_stmts st stmt_name = None then Inr (DBERR_SQL_ERROR, st)
         else if length paramTypes \<noteq> length paramValues \<or> length paramTypes \<noteq> length paramFlags
           then Inr (DBERR_INTERNAL_ERR, mismatch)
         else if length paramTypes \<noteq> length paramValues \<or> length paramTypes \<noteq> length paramFlags
           then Inr (DBERR_INTERNAL_ERR, mismatch)
         else
           (case marshal_params X paramTypes paramValues paramLengths paramFlags of
              Inl e \<Rightarrow> Inl e
            | Inr ps \<Rightarrow>
               (let (res, st1) = pq_send X
                       (PQexecPrepared stmt_name (map (fst \<circ> snd) ps)
                          (map (fst \<circ> snd \<circ> snd) ps) (map (snd \<circ> snd \<circ> snd) ps)) st;
                    wk_rs = \<lparr>rs_id = next_rs st1, resultset = res, current_row_index = - 1,
                             num_rows = 0\<rparr>;
                    st2 = set_last res (st1\<lparr>next_rs := Suc (next_rs st1)\<rparr>)
                in if last_rc st2 = PGRES_COMMAND_OK \<or> last_rc st2 = PGRES_TUPLES_OK then
                     Inr (DBERR_NO_ERROR,
                          st2\<lparr>prepared_stmts := (prepared_stmts st2)(stmt_name \<mapsto> Some wk_rs)\<rparr>)
                   else Inr (DBERR_SQL_ERROR, st2\<lparr>last_rc := - (10000 + last_rc st2)\<rparr>))))"


text \<open>\<^verbatim>\<open>DbInterfacePGSQL::move_to_first_record\<close>.\<close>

definition move_to_first_record ::
  "extern \<Rightarrow> string \<Rightarrow> DbInterfacePGSQL \<Rightarrow> bool \<times> DbInterfacePGSQL" where
  "move_to_first_record X stmt_name0 st =
     (let stmt_name = to_lower stmt_name0;
          invalid = (False, pgsqlSetError (dberr_code X DBERR_MOVE_TO_FIRST_FAILED) ''HY000''
                              ''Invalid statement reference'' st)
      in if stmt_name \<noteq> [] \<and> prepared_stmts st stmt_name = None then invalid
         else
           (case (if stmt_name = [] then current_resultset_data st
                  else (case prepared_stmts st stmt_name of Some p \<Rightarrow> p | None \<Rightarrow> None)) of
              None \<Rightarrow> invalid
            | Some wk_rs \<Rightarrow>
                if resultset wk_rs = None then invalid
                else if get_num_rows (resultset wk_rs) \<le> 0
                  then (False, pgsqlSetError (dberr_code X DBERR_NO_DATA) ''02000'' ''No data'' st)
                else (True, st)))"

text \<open>
  The result set a statement name stands for in \<^verbatim>\<open>move_to_first_record\<close>: the current
  one for the empty name, the one stored under the lower-cased name otherwise; \<open>None\<close>
  when the name is unknown, when no result-set object is held, or when the object holds
  no \<^verbatim>\<open>PGresult\<close>.
\<close>

definition result_set_of :: "DbInterfacePGSQL \<Rightarrow> string \<Rightarrow> PGresult option" where
  "result_set_of st stmt_name =
     (case (if to_lower stmt_name = [] then current_resultset_data st
            else (case prepared_stmts st (to_lower stmt_name) of Some p \<Rightarrow> p | None \<Rightarrow> None)) of
        None \<Rightarrow> None
      | Some rs \<Rightarrow> resultset rs)"


text \<open>\<^verbatim>\<open>std::to_string\<close> on an \<^verbatim>\<open>int\<close>.\<close>

definition to_string_int :: "int \<Rightarrow> string" where
  "to_string_int i = (if i < 0 then CHR ''-'' # to_string (nat (- i)) else to_string (nat i))"

text \<open>
  \<^verbatim>\<open>DbInterfacePGSQL::connect\<close>. The connection parameters are the five of the data
  source and, of the data source's options, those libpq supports. After the connection
  is made the call sets the client encoding, sets the search path, starts the first
  transaction when autocommit is off, and reads its own options. \<^verbatim>\<open>PQfinish\<close> on the
  failure paths closes the connection; the record does not keep a failed connection.
\<close>

definition supported_libpq_opts :: "string list" where
  "supported_libpq_opts =
     [''hostaddr'', ''connect_timeout'', ''application_name'', ''keepalives'',
      ''keepalives_idle'', ''keepalives_interval'', ''keepalives_count'', ''sslmode'',
      ''requiressl'', ''sslcert'', ''sslkey'', ''sslrootcert'', ''sslcrl'', ''krbsrvname'',
      ''gsslib'', ''service'']"

definition connection_params :: "IDataSourceInfo \<Rightarrow> (string \<rightharpoonup> string)" where
  "connection_params info =
     fold (\<lambda>k m. case getOptions info k of Some v \<Rightarrow> m(k \<mapsto> v) | None \<Rightarrow> m)
       supported_libpq_opts
       [''dbname'' \<mapsto> getDbName info, ''host'' \<mapsto> getHost info,
        ''port'' \<mapsto> (if getPort info = 0 then [] else to_string_int (getPort info)),
        ''user'' \<mapsto> getUsername info, ''password'' \<mapsto> getPassword info]"

definition is_on :: "string \<Rightarrow> bool" where
  "is_on v = (v = ''on'' \<or> v = ''1'' \<or> v = ''true'')"

definition is_off :: "string \<Rightarrow> bool" where
  "is_off v = (v = ''off'' \<or> v = ''0'' \<or> v = ''false'')"

definition read_driver_options :: "(string \<rightharpoonup> string) \<Rightarrow> DbInterfacePGSQL \<Rightarrow> DbInterfacePGSQL" where
  "read_driver_options opts st =
     (let st1 = (case opts ''decode_binary'' of
                   None \<Rightarrow> st
                 | Some v \<Rightarrow>
                     (let s1 = (if v \<noteq> [] \<and> is_on v then st\<lparr>decode_binary := DECODE_BINARY_ON\<rparr> else st)
                      in if v \<noteq> [] \<and> is_off v then s1\<lparr>decode_binary := DECODE_BINARY_OFF\<rparr> else s1))
      in case opts ''native_cursors'' of
           None \<Rightarrow> st1
         | Some v \<Rightarrow>
             (let s1 = (if v \<noteq> [] \<and> is_on v then st1\<lparr>use_native_cursors := True\<rparr> else st1)
              in if v \<noteq> [] \<and> is_off v then s1\<lparr>use_native_cursors := False\<rparr> else s1))"

text \<open>
  The three blocks of \<^verbatim>\<open>connect\<close> that may return early, each on its own: \<open>Inl\<close> is
  the early return with \<^verbatim>\<open>DBERR_CONNECTION_FAILED\<close>, \<open>Inr\<close> the driver with which
  \<^verbatim>\<open>connect\<close> goes on.
\<close>

definition connect_client_encoding ::
  "extern \<Rightarrow> IConnectionOptions \<Rightarrow> DbInterfacePGSQL
    \<Rightarrow> (dberr \<times> DbInterfacePGSQL) + DbInterfacePGSQL" where
  "connect_client_encoding X conn_opts st =
     (if client_encoding conn_opts \<noteq> [] then
        (let st1 = st\<lparr>sent := sent st @ [PQsetClientEncoding (client_encoding conn_opts)]\<rparr>
         in if client_encoding_rc X (sent st) (client_encoding conn_opts) \<noteq> 0
            then Inl (DBERR_CONNECTION_FAILED,
                      st1\<lparr>last_rc := 1, last_error := PQerrorMessage X (sent st1)\<rparr>)
            else Inr st1)
      else Inr st)"

definition connect_default_schema ::
  "extern \<Rightarrow> (string \<rightharpoonup> string) \<Rightarrow> DbInterfacePGSQL
    \<Rightarrow> (dberr \<times> DbInterfacePGSQL) + DbInterfacePGSQL" where
  "connect_default_schema X opts st =
     (case opts ''default_schema'' of
        None \<Rightarrow> Inr st
      | Some default_schema \<Rightarrow>
          if default_schema \<noteq> [] then
            (let (r, st1) = pq_send X (PQexec (''set search_path to '' @ default_schema)) st
             in if PQresultStatus r \<noteq> PGRES_COMMAND_OK
                then Inl (DBERR_CONNECTION_FAILED, set_last r st1)
                else Inr st1)
          else Inr st)"

definition connect_autocommit ::
  "extern \<Rightarrow> IConnectionOptions \<Rightarrow> DbInterfacePGSQL
    \<Rightarrow> (dberr \<times> DbInterfacePGSQL) + DbInterfacePGSQL" where
  "connect_autocommit X conn_opts st =
     (if autocommit conn_opts = Off then
        (let (r, st1) = pq_send X (PQexec ''BEGIN TRANSACTION'') st
         in if PQresultStatus r \<noteq> PGRES_COMMAND_OK
            then Inl (DBERR_CONNECTION_FAILED, set_last r st1)
            else Inr st1)
      else Inr st)"

definition connect ::
  "extern \<Rightarrow> IDataSourceInfo \<Rightarrow> IConnectionOptions \<Rightarrow> DbInterfacePGSQL \<Rightarrow> dberr \<times> DbInterfacePGSQL" where
  "connect X conn_info conn_opts st00 =
     (let st0 = st00\<lparr>connaddr := None, current_resultset_data := None, last_rc := 0,
                    last_error := [], last_state := []\<rparr>;
          opts = getOptions conn_info
      in case connectdb X (connection_params conn_info) of
           None \<Rightarrow>
             (DBERR_CONNECTION_FAILED,
              st0\<lparr>last_error := ''Connection failed'',
                  last_rc := dberr_code X DBERR_CONNECTION_FAILED\<rparr>)
         | Some conn \<Rightarrow>
             if conn_status conn \<noteq> CONNECTION_OK then
               (DBERR_CONNECTION_FAILED,
                st0\<lparr>last_error := PQerrorMessage X (sent st0), last_rc := conn_status conn\<rparr>)
             else
               (case connect_client_encoding X conn_opts st0 of
                  Inl failed \<Rightarrow> failed
                | Inr st1 \<Rightarrow>
                    (case connect_default_schema X opts st1 of
                       Inl failed \<Rightarrow> failed
                     | Inr st2 \<Rightarrow>
                         (case connect_autocommit X conn_opts st2 of
                            Inl failed \<Rightarrow> failed
                          | Inr st3 \<Rightarrow>
                              (DBERR_NO_ERROR,
                               (read_driver_options opts st3)
                                 \<lparr>connaddr := Some conn,
                                  connection_opts := Some conn_opts,
                                  data_source_info := Some conn_info\<rparr>)))))"

text \<open>
  \<^verbatim>\<open>DbInterfacePGSQL::get_resultset_value\<close>. The caller's buffer is the memory from
  \<^verbatim>\<open>bfr\<close> on, a function from the offset to the byte there, so that a write at any
  offset shows. \<open>c_str\<close> is a C string as \<^verbatim>\<open>memcpy\<close> reads it, with its terminator.
\<close>

definition c_str :: "string \<Rightarrow> string" where
  "c_str s = takeWhile (\<lambda>c. c \<noteq> CHR 0x00) s @ [CHR 0x00]"

definition memcpy :: "(nat \<Rightarrow> char) \<Rightarrow> string \<Rightarrow> nat \<Rightarrow> (nat \<Rightarrow> char)" where
  "memcpy dst src n = (\<lambda>i. if i < n then src ! i else dst i)"

definition memset :: "(nat \<Rightarrow> char) \<Rightarrow> nat \<Rightarrow> char \<Rightarrow> nat \<Rightarrow> (nat \<Rightarrow> char)" where
  "memset dst off c n = (\<lambda>i. if off \<le> i \<and> i < off + n then c else dst i)"

datatype ResultSetContext =
    CurrentResultSet
  | PreparedStatement string
  | Cursor "cursor option"

record resultset_value =
  bfr :: "nat \<Rightarrow> char"
  value_len :: "64 word"
  is_db_null :: bool

text \<open>The part of \<^verbatim>\<open>get_resultset_value\<close> after the \<^verbatim>\<open>switch\<close>, from \<^verbatim>\<open>if (!wk_rs)\<close> on.\<close>

definition copy_value ::
  "extern \<Rightarrow> PGResultSetData option \<Rightarrow> int \<Rightarrow> int \<Rightarrow> 64 word \<Rightarrow> int \<Rightarrow> resultset_value
    \<Rightarrow> bool \<times> resultset_value" where
  "copy_value X wk_rs row col bfrlen decode out0 =
     (case wk_rs of
        None \<Rightarrow> (False, out0)
      | Some rs \<Rightarrow>
          (case PQgetvalue (resultset rs) row col of
             None \<Rightarrow> (False, out0)
           | Some res \<Rightarrow>
               if strlen res = 0 \<and> PQgetisnull (resultset rs) row col then
                 (True, out0\<lparr>bfr := (bfr out0)(0 := CHR 0x00), value_len := 0, is_db_null := True\<rparr>)
               else if PQftype (resultset rs) col \<noteq> OID_BYTEA \<or> decode = 0 then
                 (let to_length = strlen res
                  in if unat bfrlen < to_length then (False, out0)
                     else (True,
                           out0\<lparr>bfr := memcpy (bfr out0) (c_str res) (to_length + 1),
                                value_len := scast (word_of_nat to_length :: 32 word)\<rparr>))
               else
                 (case PQunescapeBytea X res of
                    None \<Rightarrow> (False, out0)
                  | Some tmp_bfr \<Rightarrow>
                      (let to_length = length tmp_bfr
                       in if unat bfrlen < to_length then (False, out0)
                          else (True,
                                out0\<lparr>bfr :=
                                       (let b = memcpy (bfr out0) tmp_bfr to_length
                                        in if to_length < unat bfrlen
                                           then memset b to_length (CHR 0x00) (unat bfrlen - to_length)
                                           else b),
                                     value_len := scast (word_of_nat to_length :: 32 word)\<rparr>)))))"

definition get_resultset_value ::
  "extern \<Rightarrow> ResultSetContext \<Rightarrow> int \<Rightarrow> int \<Rightarrow> (nat \<Rightarrow> char) \<Rightarrow> 64 word \<Rightarrow> bool
    \<Rightarrow> DbInterfacePGSQL \<Rightarrow> fault + (bool \<times> resultset_value)" where
  "get_resultset_value X ctx row col bfr0 bfrlen is_db_null0 st =
     (let out0 = \<lparr>bfr = bfr0, value_len = 0, is_db_null = is_db_null0\<rparr>
      in case ctx of
           CurrentResultSet \<Rightarrow>
             Inr (copy_value X (current_resultset_data st) row col bfrlen (decode_binary st) out0)
         | PreparedStatement prepared_statement_name \<Rightarrow>
             (case prepared_stmts st (to_lower prepared_statement_name) of
                None \<Rightarrow> Inr (False, out0)
              | Some wk_rs \<Rightarrow> Inr (copy_value X wk_rs row col bfrlen (decode_binary st) out0))
         | Cursor c \<Rightarrow>
             (case c of
                None \<Rightarrow> Inr (False, out0)
              | Some cu \<Rightarrow>
                  (case getPrivateData cu of
                     None \<Rightarrow> Inl Null_dereference
                   | Some rs \<Rightarrow>
                       Inr (copy_value X (Some rs)
                              (if current_row_index rs \<noteq> - 1 then current_row_index rs else row)
                              col bfrlen (decode_binary st) out0))))"

text \<open>What a call returned, when it returned.\<close>

definition returned :: "fault + 'a \<Rightarrow> 'a option" where
  "returned r = (case r of Inl e \<Rightarrow> None | Inr v \<Rightarrow> Some v)"

text \<open>The commands a call issued: those recorded after it and not before.\<close>

definition issued :: "DbInterfacePGSQL \<Rightarrow> DbInterfacePGSQL \<Rightarrow> wire_cmd list" where
  "issued st st' = drop (length (sent st)) (sent st')"

section \<open>The preprocessor driver\<close>

text \<open>
  Modelled from the spec: \<^verbatim>\<open>TransformationStepData\<close> and \<^verbatim>\<open>ITransformationStep\<close>, whose
  headers are not among the sources. The data passed between steps is a tagged value, a
  file name or a buffer; a step reads an input and writes an output, and \<^verbatim>\<open>setInput\<close>,
  \<^verbatim>\<open>setOutput\<close>, \<^verbatim>\<open>getOutput\<close> store and read these two. A null pointer is \<open>None\<close>.
\<close>

datatype TransformationStepDataType = NotSet | Filename | Buffer

record TransformationStepData =
  data_type :: TransformationStepDataType
  filename :: string

record ITransformationStep =
  getInput :: "TransformationStepData option"
  getOutput :: "TransformationStepData option"

definition setInput :: "TransformationStepData option \<Rightarrow> ITransformationStep \<Rightarrow> ITransformationStep" where
  "setInput d s = s\<lparr>getInput := d\<rparr>"

definition setOutput :: "TransformationStepData option \<Rightarrow> ITransformationStep \<Rightarrow> ITransformationStep" where
  "setOutput d s = s\<lparr>getOutput := d\<rparr>"

text \<open>
  The preprocessor holds its steps through shared pointers, and \<^verbatim>\<open>transform\<close> compares
  these pointers: a step is its address, and the step objects live in a store from
  addresses to objects. The same address may stand in the list more than once. The
  members \<^verbatim>\<open>input\<close> and \<^verbatim>\<open>output\<close> of the preprocessor are \<open>pp_input\<close> and \<open>pp_output\<close>.
\<close>

type_synonym step_store = "nat \<Rightarrow> ITransformationStep"

datatype variant = VInt int | VFloat "32 word" | VBool bool | VString string

record ErrorData =
  err_code :: int
  err_messages :: "string list"
  warnings :: "string list"

record GixPreProcessor =
  steps :: "nat list"
  infile :: string
  outfile :: string
  pp_input :: "TransformationStepData option"
  pp_output :: "TransformationStepData option"
  opts :: "string \<rightharpoonup> variant"
  err_data :: ErrorData
  objects :: step_store

text \<open>
  What the driver calls and the sources do not hold: the \<^verbatim>\<open>run\<close> method of a step (on
  the step's address and the address of the step before it, \<open>None\<close> for a null pointer),
  which may change any step object; \<^verbatim>\<open>TransformationStepData::isValid\<close>; and
  \<^verbatim>\<open>file_exists\<close>.
\<close>

record pp_extern =
  run :: "nat \<Rightarrow> nat option \<Rightarrow> step_store \<Rightarrow> bool \<times> step_store"
  isValid :: "TransformationStepData \<Rightarrow> bool"
  file_exists :: "string \<Rightarrow> bool"

definition SET_PP_ERR :: "int \<Rightarrow> string \<Rightarrow> GixPreProcessor \<Rightarrow> GixPreProcessor" where
  "SET_PP_ERR i s gp =
     gp\<lparr>err_data := (err_data gp)\<lparr>err_code := i, err_messages := err_messages (err_data gp) @ [s]\<rparr>\<rparr>"

definition getOpt :: "GixPreProcessor \<Rightarrow> string \<Rightarrow> variant \<Rightarrow> variant" where
  "getOpt gp key b = (case opts gp key of Some v \<Rightarrow> v | None \<Rightarrow> b)"

text \<open>
  \<^verbatim>\<open>GixPreProcessor::transform\<close>. The loop runs over the steps that remain, with the
  index \<open>k\<close> of the step at hand and \<^verbatim>\<open>prev_step\<close>. Each call of \<^verbatim>\<open>run\<close> is recorded:
  the index of the step, the step object \<^verbatim>\<open>run\<close> is called on, and the store at the moment
  of the call.
\<close>

fun transform_loop ::
  "pp_extern \<Rightarrow> nat list \<Rightarrow> nat \<Rightarrow> nat option \<Rightarrow> nat list \<Rightarrow> step_store
    \<Rightarrow> (nat \<times> nat \<times> step_store) list
    \<Rightarrow> fault + (bool \<times> step_store \<times> (nat \<times> nat \<times> step_store) list)" where
  "transform_loop E all_steps k prev_step [] \<sigma> calls = Inr (True, \<sigma>, calls)"
| "transform_loop E all_steps k prev_step (step # rest) \<sigma> calls =
     (case all_steps of
        [] \<Rightarrow> Inl Out_of_range
      | first # others \<Rightarrow>
          (case (if step \<noteq> first
                 then (case prev_step of
                         None \<Rightarrow> Inl Null_dereference
                       | Some p \<Rightarrow> Inr (\<sigma>(step := setInput (getOutput (\<sigma> p)) (\<sigma> step))))
                 else Inr \<sigma>) of
             Inl e \<Rightarrow> Inl e
           | Inr \<sigma>1 \<Rightarrow>
               (case run E step prev_step \<sigma>1 of
                  (ok, \<sigma>2) \<Rightarrow>
                    if \<not> ok then Inr (False, \<sigma>2, calls @ [(k, step, \<sigma>1)])
                    else transform_loop E all_steps (Suc k) (Some step) rest \<sigma>2
                           (calls @ [(k, step, \<sigma>1)]))))"

definition transform ::
  "pp_extern \<Rightarrow> GixPreProcessor
    \<Rightarrow> fault + (bool \<times> step_store \<times> (nat \<times> nat \<times> step_store) list)" where
  "transform E gp = transform_loop E (steps gp) 0 None (steps gp) (objects gp) []"

text \<open>
  \<^verbatim>\<open>GixPreProcessor::process\<close>. The result is the value returned, the preprocessor
  afterwards and the calls of \<^verbatim>\<open>run\<close> made. The lines printed in verbose mode are left
  out.
\<close>

definition process ::
  "pp_extern \<Rightarrow> GixPreProcessor
    \<Rightarrow> fault + (bool \<times> GixPreProcessor \<times> (nat \<times> nat \<times> step_store) list)" where
  "process E gp0 =
     (if steps gp0 = [] then Inr (False, gp0, [])
      else
        (let infile_data = \<lparr>data_type = Filename, filename = infile gp0\<rparr>;
             first = hd (steps gp0);
             gp1 = gp0\<lparr>objects := (objects gp0)(first := setInput (Some infile_data) (objects gp0 first)),
                       pp_input := Some infile_data\<rparr>;
             outfile_data = \<lparr>data_type = Filename, filename = outfile gp0\<rparr>;
             final = last (steps gp1);
             gp2 = gp1\<lparr>objects := (objects gp1)(final := setOutput (Some outfile_data) (objects gp1 final)),
                       pp_output := Some outfile_data\<rparr>
         in if \<not> isValid E infile_data then Inr (False, SET_PP_ERR 1 ''Bad input file'' gp2, [])
            else
              (case getOpt gp2 ''no_output'' (VBool False) of
                 VBool no_output \<Rightarrow>
                   if \<not> no_output \<and> \<not> isValid E outfile_data
                     then Inr (False, SET_PP_ERR 2 ''Bad output file'' gp2, [])
                   else if \<not> file_exists E (filename infile_data)
                     then Inr (False, SET_PP_ERR 4 ''Input file does not exist'' gp2, [])
                   else
                     (case transform E gp2 of
                        Inl e \<Rightarrow> Inl e
                      | Inr (b, \<sigma>, calls) \<Rightarrow> Inr (b, gp2\<lparr>objects := \<sigma>\<rparr>, calls))
               | _ \<Rightarrow> Inl Bad_variant_access)))"

text \<open>
  A call of \<^verbatim>\<open>run\<close> as \<open>transform_loop\<close> records it, for a given list of steps: the
  index is one of the list, the step object called is the one at this index, and the
  step, unless it is step 0 or the object of step 0, has the output of the step before
  it as its input. \<open>call_view\<close> shows of a call its index, the step object called, the
  input of that object and the output of the step before it (of step 0 for the first
  call).
\<close>

definition chained :: "nat list \<Rightarrow> nat \<times> nat \<times> step_store \<Rightarrow> bool" where
  "chained ss call =
     (case call of (j, step, s) \<Rightarrow>
        j < length ss \<and> step = ss ! j
        \<and> (j = 0 \<or> ss ! j = ss ! 0 \<or> getInput (s step) = getOutput (s (ss ! (j - 1)))))"

definition call_view ::
  "nat list \<Rightarrow> nat \<times> nat \<times> step_store
    \<Rightarrow> nat \<times> nat \<times> TransformationStepData option \<times> TransformationStepData option" where
  "call_view ss call =
     (case call of (j, step, s) \<Rightarrow> (j, step, getInput (s step), getOutput (s (ss ! (j - 1)))))"

text \<open>
  Sample steps: a \<^verbatim>\<open>run\<close> that writes a buffer as the step's output, named after the
  step object.
\<close>

definition sample_pp_extern :: pp_extern where
  "sample_pp_extern =
     \<lparr>run = (\<lambda>step prev \<sigma>.
               (True, \<sigma>(step := setOutput (Some \<lparr>data_type = Buffer,
                                                  filename = ''out'' @ [digit_char step]\<rparr>)
                                     (\<sigma> step)))),
      isValid = (\<lambda>d. filename d \<noteq> []),
      file_exists = (\<lambda>f. True)\<rparr>"

definition sample_preprocessor :: "nat list \<Rightarrow> GixPreProcessor" where
  "sample_preprocessor ss =
     \<lparr>steps = ss, infile = ''foo.cbl'', outfile = ''foo.cob'', pp_input = None, pp_output = None,
      opts = Map.empty, err_data = \<lparr>err_code = 0, err_messages = [], warnings = []\<rparr>,
      objects = (\<lambda>a. \<lparr>getInput = None, getOutput = None\<rparr>)\<rparr>"

section \<open>The command line\<close>

text \<open>
  \<^verbatim>\<open>std::filesystem::path\<close> on a path with \<^verbatim>\<open>/\<close> as the separator: \<^verbatim>\<open>filename()\<close> is
  what follows the last separator; \<^verbatim>\<open>extension()\<close> is the part of the file name from
  its last period on, the period included, and is empty when the file name has no
  period, is \<^verbatim>\<open>.\<close> or \<^verbatim>\<open>..\<close>, or has its only period in front; \<^verbatim>\<open>stem()\<close> is the file
  name without the extension.
\<close>

definition path_filename :: "string \<Rightarrow> string" where
  "path_filename p = rev (takeWhile (\<lambda>c. c \<noteq> CHR ''/'') (rev p))"

definition path_extension :: "string \<Rightarrow> string" where
  "path_extension p =
     (let f = path_filename p;
          after = takeWhile (\<lambda>c. c \<noteq> CHR ''.'') (rev f)
      in if CHR ''.'' \<notin> set f \<or> f = ''.'' \<or> f = ''..'' \<or> Suc (length after) = length f then []
         else CHR ''.'' # rev after)"

definition path_stem :: "string \<Rightarrow> string" where
  "path_stem p =
     (let f = path_filename p in take (length f - length (path_extension p)) f)"

text \<open>
  \<^verbatim>\<open>is_alias\<close> returns its result and the value of the reference parameter \<^verbatim>\<open>ext\<close>
  afterwards.
\<close>

definition is_alias :: "string \<Rightarrow> string \<Rightarrow> bool \<times> string" where
  "is_alias f ext = (if path_stem f = ''@'' then (True, path_extension f) else (False, ext))"

definition get_basename :: "string \<Rightarrow> string" where
  "get_basename f = path_stem f"

text \<open>
  \<^verbatim>\<open>main\<close> of the preprocessor's command line, from the parsed options to the call of
  \<^verbatim>\<open>process\<close>. An option that takes a value is \<open>None\<close> when it is not set. \<open>Exit\<close> is a
  return from \<^verbatim>\<open>main\<close> before the pipeline runs, with the exit code and the lines
  written to the error stream; \<open>Run\<close> is the call of \<^verbatim>\<open>process\<close> with the input and the
  output file the preprocessor was given. The setting up of the steps and of their
  options, which returns nowhere, is left out.
\<close>

record gixpp_options =
  unknown_options :: "string list"
  opt_help :: bool
  opt_version :: bool
  opt_consolidate :: bool
  opt_esql :: bool
  opt_infile :: "string option"
  opt_outfile :: "string option"
  opt_picx_as_varchar :: "string option"
  opt_varying_ids :: "string option"

datatype main_result = Exit int "string list" | Run string string

definition bad_varying_ids :: "string \<Rightarrow> bool" where
  "bad_varying_ids varying_ids =
     (let cpos = length (takeWhile (\<lambda>c. c \<noteq> CHR '','') varying_ids)
      in CHR '','' \<notin> set varying_ids \<or> length varying_ids < 3 \<or> cpos = 0
         \<or> cpos = length varying_ids - 1)"

definition main :: "gixpp_options \<Rightarrow> main_result" where
  "main args =
     (if unknown_options args \<noteq> [] then
        Exit 1 (map (\<lambda>uo. ''ERROR: unknown option: '' @ uo) (unknown_options args))
      else if opt_help args then Exit 0 []
      else if opt_version args then Exit 0 []
      else if \<not> opt_consolidate args \<and> \<not> opt_esql args then
        Exit 1 [''ERROR: please enter at least one of the -e or -c options'']
      else
        (case (opt_infile args, opt_outfile args) of
           (Some infile0, Some outfile0) \<Rightarrow>
             if (case opt_picx_as_varchar args of
                   None \<Rightarrow> False
                 | Some v \<Rightarrow> v \<noteq> ''char'' \<and> v \<noteq> ''charf'' \<and> v \<noteq> ''varchar'') then
               Exit 1 [''ERROR: picx argument must be \"charf\" or \"varchar\"'',
                       ''ERROR: -P/--picx-as argument must be one of \"char\", \"charf\", \"varchar\"'']
             else if (case opt_varying_ids args of None \<Rightarrow> False | Some v \<Rightarrow> bad_varying_ids v) then
               Exit 1 [''ERROR: please enter suffixes as --varying=LEN,ARR'']
             else
               (let (aliased, outext) = is_alias outfile0 [];
                    outfile1 = (if aliased then get_basename infile0 @ ''.'' @ outext else outfile0)
                in if infile0 = outfile1 then
                     Exit 1 [''ERROR: input and output file must be different'']
                   else Run infile0 outfile1)
         | _ \<Rightarrow>
             Exit 1 [''ERROR: please enter at least the input and output file parameters'']))"

definition sample_options :: "string \<Rightarrow> string \<Rightarrow> gixpp_options" where
  "sample_options i out =
     \<lparr>unknown_options = [], opt_help = False, opt_version = False, opt_consolidate = False,
      opt_esql = True, opt_infile = Some i, opt_outfile = Some out,
      opt_picx_as_varchar = None, opt_varying_ids = None\<rparr>"

section \<open>Sample values\<close>

text \<open>
  Concrete servers, drivers and arguments, at which the theorems below are instantiated.
  \<open>sample_extern answer\<close> is a server that answers a command with \<open>answer\<close>,
  whatever was sent before; on it a transaction is open from a \<^verbatim>\<open>BEGIN TRANSACTION\<close> or
  \<^verbatim>\<open>START TRANSACTION\<close> it accepted until the next \<^verbatim>\<open>COMMIT\<close> or \<^verbatim>\<open>ROLLBACK\<close>, which ends
  the transaction also when the server reports an error for it (as a failed
  serialisation does).
\<close>

definition command_ok :: "string \<Rightarrow> PGresult" where
  "command_ok n =
     \<lparr>result_status = 1, result_error_message = [], result_sqlstate = None,
      cmd_tuples = n, tuples = [], ftypes = []\<rparr>"

definition fatal_error :: "string \<Rightarrow> PGresult" where
  "fatal_error state =
     \<lparr>result_status = 7, result_error_message = ''ERROR'', result_sqlstate = Some state,
      cmd_tuples = [], tuples = [], ftypes = []\<rparr>"

definition sample_transaction :: "(wire_cmd \<Rightarrow> PGresult option) \<Rightarrow> wire_cmd \<Rightarrow> bool \<Rightarrow> bool" where
  "sample_transaction answer cmd opened =
     (if cmd = PQexec ''BEGIN TRANSACTION'' \<or> cmd = PQexec ''START TRANSACTION''
      then PQresultStatus (answer cmd) = PGRES_COMMAND_OK \<or> opened
      else if cmd = PQexecParams ''COMMIT'' [] [] [] [] \<or> cmd = PQexecParams ''ROLLBACK'' [] [] [] []
      then False
      else opened)"

definition sample_extern :: "(wire_cmd \<Rightarrow> PGresult option) \<Rightarrow> extern" where
  "sample_extern answer =
     \<lparr>backend = (\<lambda>history cmd. answer cmd),
      connectdb = (\<lambda>params. Some \<lparr>conn_status = 0\<rparr>),
      client_encoding_rc = (\<lambda>history enc. 0),
      PQerrorMessage = (\<lambda>history. []),
      is_tx_termination_statement = (\<lambda>q. q = ''COMMIT'' \<or> q = ''ROLLBACK''),
      is_update_or_delete_statement = (\<lambda>q. take 7 q = ''UPDATE '' \<or> take 7 q = ''DELETE ''),
      CBL_FIELD_IS_BINARY = (\<lambda>f. bit f 8),
      DB_NULL = - 1,
      PQunescapeBytea = (\<lambda>s. Some s),
      dberr_code = (\<lambda>e. case e of DBERR_NO_ERROR \<Rightarrow> 0 | DBERR_NO_DATA \<Rightarrow> 100 | _ \<Rightarrow> - 1),
      in_transaction = (\<lambda>history. fold (sample_transaction answer) history False)\<rparr>"

definition new_driver :: DbInterfacePGSQL where
  "new_driver =
     \<lparr>connaddr = None, data_source_info = None, connection_opts = None,
      current_resultset_data = None, last_rc = 0, last_error = [], last_state = [],
      prepared_stmts = Map.empty, decode_binary = DECODE_BINARY_ON, use_native_cursors = True,
      sent = [], next_rs = 0\<rparr>"

definition connected_driver :: "AutoCommitMode \<Rightarrow> DbInterfacePGSQL" where
  "connected_driver mode =
     new_driver
       \<lparr>connaddr := Some \<lparr>conn_status = 0\<rparr>,
        connection_opts :=
          Some \<lparr>autocommit = mode, fixup_parameters = True, client_encoding = []\<rparr>\<rparr>"

definition sample_cursor :: cursor where
  "sample_cursor =
     \<lparr>getName = ''CUR1'',
      getPrivateData =
        Some \<lparr>rs_id = 7, resultset = Some (command_ok ''2''), current_row_index = 0, num_rows = 2\<rparr>\<rparr>"

definition one_row :: "string \<Rightarrow> PGresult" where
  "one_row v =
     \<lparr>result_status = 2, result_error_message = [], result_sqlstate = None,
      cmd_tuples = ''1'', tuples = [[Some v]], ftypes = [1043]\<rparr>"

definition driver_holding :: "PGresult \<Rightarrow> DbInterfacePGSQL" where
  "driver_holding r =
     (connected_driver On)
       \<lparr>current_resultset_data :=
          Some \<lparr>rs_id = 0, resultset = Some r, current_row_index = - 1, num_rows = 1\<rparr>\<rparr>"

definition sample_info :: IDataSourceInfo where
  "sample_info =
     \<lparr>getDbName = ''testdb'', getHost = ''localhost'', getPort = 5432, getUsername = ''test'',
      getPassword = ''test'', getOptions = [''default_schema'' \<mapsto> ''app'']\<rparr>"

definition autocommit_off :: IConnectionOptions where
  "autocommit_off = \<lparr>autocommit = Off, fixup_parameters = True, client_encoding = ''UTF8''\<rparr>"

text \<open>
  A server that answers \<^verbatim>\<open>COMMIT\<close> with a serialisation failure and accepts every other
  command; the driver a successful \<^verbatim>\<open>connect\<close> with autocommit off leaves; and the driver
  after one more call of \<^verbatim>\<open>exec\<close>.
\<close>

definition failing_commit :: "wire_cmd \<Rightarrow> PGresult option" where
  "failing_commit cmd =
     (if cmd = PQexecParams ''COMMIT'' [] [] [] [] then Some (fatal_error ''40001'')
      else Some (command_ok []))"

definition after_connect :: "extern \<Rightarrow> DbInterfacePGSQL" where
  "after_connect X = snd (connect X sample_info autocommit_off new_driver)"

definition after_exec :: "extern \<Rightarrow> string \<Rightarrow> DbInterfacePGSQL \<Rightarrow> DbInterfacePGSQL" where
  "after_exec X q st = (case exec X q st of Inr (rc, st') \<Rightarrow> st' | Inl e \<Rightarrow> st)"

text \<open>The driver a call of \<^verbatim>\<open>prepare("P1", "SELECT ?")\<close> leaves, on a connected driver.\<close>

definition after_prepare :: "extern \<Rightarrow> DbInterfacePGSQL" where
  "after_prepare X =
     (case prepare X ''P1'' ''SELECT ?'' (connected_driver On) of
        Inr (rc, st') \<Rightarrow> st'
      | Inl e \<Rightarrow> connected_driver On)"

definition driver_with_p1 :: DbInterfacePGSQL where
  "driver_with_p1 = (connected_driver On)\<lparr>prepared_stmts := [''p1'' \<mapsto> None]\<rparr>"

section \<open>Properties\<close>

subsection \<open>The marker loop\<close>

lemma fixup_loop_out: "fixup_loop n sq dq ip out_sql s = out_sql @ fixup_loop n sq dq ip [] s"
proof (induction s arbitrary: n sq dq ip out_sql)
  case Nil
  show ?case by simp
next
  case (Cons c cs)
  have same: "\<And>n sq dq ip. fixup_loop n sq dq ip out_sql cs = out_sql @ fixup_loop n sq dq ip [] cs"
    by (rule Cons.IH)
  have app: "\<And>n sq dq ip x. fixup_loop n sq dq ip (out_sql @ x) cs
      = out_sql @ x @ fixup_loop n sq dq ip [] cs"
    using Cons.IH [of _ _ _ _ "out_sql @ x" for x] by simp
  have one: "\<And>n sq dq ip x. fixup_loop n sq dq ip [x] cs = x # fixup_loop n sq dq ip [] cs"
    using Cons.IH [of _ _ _ _ "[x]" for x] by simp
  have dollar: "\<And>n sq dq ip m. fixup_loop n sq dq ip (CHR ''$'' # to_string m) cs
      = CHR ''$'' # to_string m @ fixup_loop n sq dq ip [] cs"
    using Cons.IH [of _ _ _ _ "CHR ''$'' # to_string m" for m] by simp
  show ?case
    by (simp add: same app one dollar)
qed

lemma fixup_loop_one: "fixup_loop n sq dq ip [x] s = x # fixup_loop n sq dq ip [] s"
  using fixup_loop_out [of n sq dq ip "[x]" s] by simp

lemma fixup_loop_dollar:
  "fixup_loop n sq dq ip (CHR ''$'' # to_string m) s
     = CHR ''$'' # to_string m @ fixup_loop n sq dq ip [] s"
  using fixup_loop_out [of n sq dq ip "CHR ''$'' # to_string m" s] by simp

lemma isalnum_special [simp]:
  "\<not> isalnum (CHR 0x22)" "\<not> isalnum (CHR 0x27)" "\<not> isalnum (CHR ''?'')"
  "\<not> isalnum (CHR '':'')" "\<not> isalnum (CHR ''$'')"
  by (simp_all add: isalnum_def)

lemma fixup_loop_rewrite_markers:
  "fixup_loop n sq dq ip [] s
     = rewrite_markers n sq dq (if ip then dropWhile isalnum s else s)"
proof (induction s arbitrary: n sq dq ip)
  case Nil
  show ?case by simp
next
  case (Cons c cs)
  have IHF: "\<And>n sq dq. fixup_loop n sq dq False [] cs = rewrite_markers n sq dq cs"
    using Cons.IH [of _ _ _ False] by simp
  have IHT: "\<And>n sq dq. fixup_loop n sq dq True [] cs
      = rewrite_markers n sq dq (dropWhile isalnum cs)"
    using Cons.IH [of _ _ _ True] by simp
  show ?case
  proof (cases "ip \<and> isalnum c")
    case True
    then show ?thesis by (simp add: IHT)
  next
    case False
    then have arg: "(if ip then dropWhile isalnum (c # cs) else c # cs) = c # cs"
      by auto
    have step: "fixup_loop n sq dq ip [] (c # cs) =
      (if c = CHR 0x22 then c # rewrite_markers n sq (\<not> dq) cs
       else if c = CHR 0x27 then c # rewrite_markers n (\<not> sq) dq cs
       else if (c = CHR ''?'' \<or> c = CHR '':'') \<and> \<not> sq \<and> \<not> dq
         then (CHR ''$'' # to_string n) @ rewrite_markers (n + 1) sq dq (dropWhile isalnum cs)
       else c # rewrite_markers n sq dq cs)"
      using False by (auto simp: IHF IHT fixup_loop_one fixup_loop_dollar)
    show ?thesis unfolding arg step by simp
  qed
qed

subsection \<open>Unfolding and evaluation\<close>

lemmas libpq_defs = PQresultStatus_def PQresultErrorMessage_def PQresultErrorField_SQLSTATE_def
  PQcmdTuples_def pg_get_sqlstate_def PGRES_COMMAND_OK_def PGRES_TUPLES_OK_def PGRES_FATAL_ERROR_def
  get_num_rows_def

lemmas sample_defs = sample_extern_def new_driver_def connected_driver_def command_ok_def
  fatal_error_def sample_cursor_def one_row_def driver_holding_def sample_info_def
  autocommit_off_def driver_with_p1_def failing_commit_def after_connect_def after_exec_def
  sample_transaction_def

lemmas driver_defs = pgsql_exec_def pgsql_exec_params_def exec_def exec_params_def prepare_def
  exec_prepared_def pq_send_def set_last_def same_object_def marshal_params_def marshal_param_def
  get_pgsql_type_def returned_def Let_def

lemma atoi_0: "atoi ''0'' = 0"
  by code_simp


lemma to_lower_S1: "to_lower ''S1'' = ''s1''"
  by code_simp

lemma to_lower_P1: "to_lower ''P1'' = ''p1''"
  by code_simp

lemma to_lower_p1: "to_lower ''p1'' = ''p1''"
  by code_simp

lemma tolower_idem: "tolower (tolower c) = tolower c"
proof -
  have "of_char (char_of (of_char c + 32 :: nat) :: char) = (of_char c + 32 :: nat)"
    if "(of_char c :: nat) \<le> 90"
    using that by (simp add: of_char_of)
  then show ?thesis
    by (auto simp: tolower_def Let_def)
qed

lemma to_lower_idem: "to_lower (to_lower s) = to_lower s"
  by (simp add: to_lower_def tolower_idem)

subsection \<open>What the blocks of a call send\<close>

lemma sent_set_last [simp]: "sent (set_last r st) = sent st"
  by (simp add: set_last_def)

lemma connection_opts_set_last [simp]: "connection_opts (set_last r st) = connection_opts st"
  by (simp add: set_last_def)

lemma sent_read_driver_options [simp]: "sent (read_driver_options os st) = sent st"
  by (simp add: read_driver_options_def Let_def split: option.splits)

lemma connect_client_encoding_issued:
  assumes "connect_client_encoding X co st = Inr st1"
  shows "sent st1 = sent st @
     (if client_encoding co \<noteq> [] then [PQsetClientEncoding (client_encoding co)] else [])"
  using assms by (auto simp: connect_client_encoding_def Let_def split: if_splits)

lemma connect_default_schema_issued:
  assumes "connect_default_schema X os st = Inr st1"
  shows "sent st1 = sent st @
     (case os ''default_schema'' of
        None \<Rightarrow> []
      | Some d \<Rightarrow> if d \<noteq> [] then [PQexec (''set search_path to '' @ d)] else [])"
  using assms
  by (auto simp: connect_default_schema_def Let_def pq_send_def split: if_splits option.splits)

lemma connect_autocommit_issued:
  assumes "connect_autocommit X co st = Inr st1" "autocommit co = Off"
  shows "sent st1 = sent st @ [PQexec ''BEGIN TRANSACTION'']
     \<and> PQresultStatus (backend X (sent st) (PQexec ''BEGIN TRANSACTION'')) = PGRES_COMMAND_OK"
  using assms by (auto simp: connect_autocommit_def Let_def pq_send_def split: if_splits)

lemma connect_blocks_fail:
  "connect_client_encoding X co st = Inl (rc, s) \<Longrightarrow> rc = DBERR_CONNECTION_FAILED"
  "connect_default_schema X os st = Inl (rc, s) \<Longrightarrow> rc = DBERR_CONNECTION_FAILED"
  "connect_autocommit X co st = Inl (rc, s) \<Longrightarrow> rc = DBERR_CONNECTION_FAILED"
  by (auto simp: connect_client_encoding_def connect_default_schema_def connect_autocommit_def
      Let_def split: if_splits option.splits prod.splits)



lemma connect_issued:
  assumes "autocommit conn_opts = Off" "connect X info conn_opts st = (DBERR_NO_ERROR, st')"
  shows "count_list (issued st st') (PQexec ''BEGIN TRANSACTION'') = 1
     \<and> last (issued st st') = PQexec ''BEGIN TRANSACTION''
     \<and> PQresultStatus (backend X (butlast (sent st')) (PQexec ''BEGIN TRANSACTION''))
          = PGRES_COMMAND_OK
     \<and> (starts_transactions X \<longrightarrow> in_transaction X (sent st'))"
proof -
  define st0 where "st0 = st\<lparr>connaddr := None, current_resultset_data := None, last_rc := 0,
                    last_error := [], last_state := []\<rparr>"
  from assms(2) obtain st1 st2 st3 where
    e: "connect_client_encoding X conn_opts st0 = Inr st1"
    and s: "connect_default_schema X (getOptions info) st1 = Inr st2"
    and a: "connect_autocommit X conn_opts st2 = Inr st3"
    and f: "sent st' = sent st3"
    unfolding connect_def Let_def st0_def
    by (auto split: option.splits if_splits sum.splits dest: connect_blocks_fail)
  have s0: "sent st0 = sent st" by (simp add: st0_def)
  from connect_autocommit_issued [OF a assms(1)]
  have b: "sent st3 = sent st2 @ [PQexec ''BEGIN TRANSACTION'']"
    and ok: "PQresultStatus (backend X (sent st2) (PQexec ''BEGIN TRANSACTION''))
               = PGRES_COMMAND_OK"
    by simp_all
  have "issued st st' =
      (if client_encoding conn_opts \<noteq> [] then [PQsetClientEncoding (client_encoding conn_opts)]
       else [])
      @ (case getOptions info ''default_schema'' of
           None \<Rightarrow> []
         | Some d \<Rightarrow> if d \<noteq> [] then [PQexec (''set search_path to '' @ d)] else [])
      @ [PQexec ''BEGIN TRANSACTION'']"
    by (simp add: issued_def f b connect_default_schema_issued [OF s]
        connect_client_encoding_issued [OF e] s0)
  then have i: "count_list (issued st st') (PQexec ''BEGIN TRANSACTION'') = 1
     \<and> last (issued st st') = PQexec ''BEGIN TRANSACTION''"
    by (simp split: option.splits)
  have bl: "butlast (sent st') = sent st2" by (simp add: f b)
  have t: "in_transaction X (sent st')" if "starts_transactions X"
    using that ok unfolding starts_transactions_def f b by blast
  from i ok bl t show ?thesis by simp
qed

lemma exec_commit:
  assumes "connection_opts st = Some co" "autocommit co = Off" "is_tx_termination_statement X q"
    and "PQresultStatus (backend X (sent st) (PQexecParams q [] [] [] [])) = PGRES_COMMAND_OK"
  shows "map_option (\<lambda>r. issued st (snd r)) (returned (exec X q st))
            = Some [PQexecParams q [] [] [] [], PQexec ''START TRANSACTION'']
     \<and> map_option fst (returned (exec X q st))
            = Some (if PQresultStatus (backend X (sent st @ [PQexecParams q [] [] [] []])
                         (PQexec ''START TRANSACTION'')) = PGRES_COMMAND_OK
                    then DBERR_NO_ERROR else DBERR_SQL_ERROR)
     \<and> (PQresultStatus (backend X (sent st @ [PQexecParams q [] [] [] []])
            (PQexec ''START TRANSACTION'')) = PGRES_COMMAND_OK \<and> starts_transactions X \<longrightarrow>
          map_option (\<lambda>r. in_transaction X (sent (snd r))) (returned (exec X q st)) = Some True)"
proof -
  define r where "r = backend X (sent st) (PQexecParams q [] [] [] [])"
  define r2 where "r2 = backend X (sent st @ [PQexecParams q [] [] [] []]) (PQexec ''START TRANSACTION'')"
  have ok: "PQresultStatus r = PGRES_COMMAND_OK" using assms(4) by (simp add: r_def)
  have "\<exists>st'. pgsql_exec X None q st
      = Inr (if PQresultStatus r2 \<noteq> PGRES_COMMAND_OK then DBERR_SQL_ERROR else DBERR_NO_ERROR, None, st')
      \<and> sent st' = (sent st @ [PQexecParams q [] [] [] []]) @ [PQexec ''START TRANSACTION'']"
    unfolding pgsql_exec_def Let_def pq_send_def
    using assms(1-3) ok
    by (simp add: r_def [symmetric] r2_def [symmetric] set_last_def)
  then obtain st' where
    e: "pgsql_exec X None q st
      = Inr (if PQresultStatus r2 \<noteq> PGRES_COMMAND_OK then DBERR_SQL_ERROR else DBERR_NO_ERROR, None, st')"
    and s: "sent st' = (sent st @ [PQexecParams q [] [] [] []]) @ [PQexec ''START TRANSACTION'']"
    by blast
  have t: "in_transaction X (sent st')"
    if "PQresultStatus r2 = PGRES_COMMAND_OK" "starts_transactions X"
    using that unfolding starts_transactions_def s r2_def by blast
  from e s t show ?thesis
    by (auto simp: exec_def returned_def issued_def r2_def)
qed

lemma exec_params_commit:
  assumes "connection_opts st = Some co" "autocommit co = Off" "is_tx_termination_statement X q"
    and "length ts = length vs" "length ts = length fs"
    and "marshal_params X ts vs ls fs = Inr ps"
    and "cmd = PQexecParams q (map fst ps) (map (fst \<circ> snd) ps)
                          (map (fst \<circ> snd \<circ> snd) ps) (map (snd \<circ> snd \<circ> snd) ps)"
    and "PQresultStatus (backend X (sent st) cmd) = PGRES_COMMAND_OK"
  shows "map_option (\<lambda>r. issued st (snd r)) (returned (exec_params X q ts vs ls fs st))
            = Some [cmd, PQexec ''START TRANSACTION'']
     \<and> map_option fst (returned (exec_params X q ts vs ls fs st))
            = Some (if PQresultStatus (backend X (sent st @ [cmd])
                         (PQexec ''START TRANSACTION'')) = PGRES_COMMAND_OK
                    then DBERR_NO_ERROR else DBERR_SQL_ERROR)
     \<and> (PQresultStatus (backend X (sent st @ [cmd]) (PQexec ''START TRANSACTION''))
            = PGRES_COMMAND_OK \<and> starts_transactions X \<longrightarrow>
          map_option (\<lambda>r. in_transaction X (sent (snd r)))
            (returned (exec_params X q ts vs ls fs st)) = Some True)"
proof -
  define r where "r = backend X (sent st) cmd"
  define r2 where "r2 = backend X (sent st @ [cmd]) (PQexec ''START TRANSACTION'')"
  have ok: "PQresultStatus r = PGRES_COMMAND_OK" using assms(8) by (simp add: r_def)
  have "\<exists>st'. pgsql_exec_params X None q ts vs ls fs st
      = Inr (if PQresultStatus r2 \<noteq> PGRES_COMMAND_OK then DBERR_SQL_ERROR else DBERR_NO_ERROR, None, st')
      \<and> sent st' = (sent st @ [cmd]) @ [PQexec ''START TRANSACTION'']"
    unfolding pgsql_exec_params_def Let_def pq_send_def
    using assms(1-6) ok
    by (simp add: assms(7) [symmetric] r_def [symmetric] r2_def [symmetric] set_last_def)
  then obtain st' where
    e: "pgsql_exec_params X None q ts vs ls fs st
      = Inr (if PQresultStatus r2 \<noteq> PGRES_COMMAND_OK then DBERR_SQL_ERROR else DBERR_NO_ERROR, None, st')"
    and s: "sent st' = (sent st @ [cmd]) @ [PQexec ''START TRANSACTION'']"
    by blast
  have t: "in_transaction X (sent st')"
    if "PQresultStatus r2 = PGRES_COMMAND_OK" "starts_transactions X"
    using that unfolding starts_transactions_def s r2_def by blast
  from e s t show ?thesis
    by (auto simp: exec_params_def returned_def issued_def r2_def)
qed

lemma exec_failed_termination:
  assumes "connection_opts st = Some co" "autocommit co = Off" "is_tx_termination_statement X q"
    and "PQresultStatus (backend X (sent st) (PQexecParams q [] [] [] [])) \<noteq> PGRES_COMMAND_OK"
  shows "map_option (\<lambda>r. issued st (snd r)) (returned (exec X q st))
            = Some [PQexecParams q [] [] [] []]
     \<and> map_option fst (returned (exec X q st))
            = Some (if PQresultStatus (backend X (sent st) (PQexecParams q [] [] [] []))
                         = PGRES_TUPLES_OK
                    then DBERR_NO_ERROR else DBERR_SQL_ERROR)"
proof -
  define r where "r = backend X (sent st) (PQexecParams q [] [] [] [])"
  have no: "PQresultStatus r \<noteq> PGRES_COMMAND_OK" using assms(4) by (simp add: r_def)
  have "\<exists>st'. pgsql_exec X None q st
      = Inr (if PQresultStatus r = PGRES_TUPLES_OK then DBERR_NO_ERROR else DBERR_SQL_ERROR, None, st')
      \<and> sent st' = sent st @ [PQexecParams q [] [] [] []]"
    unfolding pgsql_exec_def Let_def pq_send_def
    using assms(1-3) no
    by (simp add: r_def [symmetric] set_last_def)
  then show ?thesis
    by (auto simp: exec_def returned_def issued_def r_def)
qed

lemma exec_params_failed_termination:
  assumes "connection_opts st = Some co" "autocommit co = Off" "is_tx_termination_statement X q"
    and "length ts = length vs" "length ts = length fs"
    and "marshal_params X ts vs ls fs = Inr ps"
    and "cmd = PQexecParams q (map fst ps) (map (fst \<circ> snd) ps)
                          (map (fst \<circ> snd \<circ> snd) ps) (map (snd \<circ> snd \<circ> snd) ps)"
    and "PQresultStatus (backend X (sent st) cmd) \<noteq> PGRES_COMMAND_OK"
  shows "map_option (\<lambda>r. issued st (snd r)) (returned (exec_params X q ts vs ls fs st))
            = Some [cmd]
     \<and> map_option fst (returned (exec_params X q ts vs ls fs st))
            = Some (if PQresultStatus (backend X (sent st) cmd) = PGRES_TUPLES_OK
                    then DBERR_NO_ERROR else DBERR_SQL_ERROR)"
proof -
  define r where "r = backend X (sent st) cmd"
  have no: "PQresultStatus r \<noteq> PGRES_COMMAND_OK" using assms(8) by (simp add: r_def)
  have "\<exists>st'. pgsql_exec_params X None q ts vs ls fs st
      = Inr (if PQresultStatus r = PGRES_TUPLES_OK then DBERR_NO_ERROR else DBERR_SQL_ERROR, None, st')
      \<and> sent st' = sent st @ [cmd]"
    unfolding pgsql_exec_params_def Let_def pq_send_def
    using assms(1-6) no
    by (simp add: assms(7) [symmetric] r_def [symmetric] set_last_def)
  then show ?thesis
    by (auto simp: exec_params_def returned_def issued_def r_def)
qed

lemma connect_transaction:
  "autocommit conn_opts = Off \<and> connect X info conn_opts st0 = (DBERR_NO_ERROR, st1) \<longrightarrow>
      count_list (issued st0 st1) (PQexec ''BEGIN TRANSACTION'') = 1
      \<and> last (issued st0 st1) = PQexec ''BEGIN TRANSACTION''
      \<and> PQresultStatus (backend X (butlast (sent st1)) (PQexec ''BEGIN TRANSACTION''))
           = PGRES_COMMAND_OK
      \<and> (starts_transactions X \<longrightarrow> in_transaction X (sent st1))"
  using connect_issued [of conn_opts X info st0 st1] by blast

lemma exec_transaction:
  "connection_opts st = Some co \<and> autocommit co = Off \<and> is_tx_termination_statement X q
       \<and> PQresultStatus (backend X (sent st) (PQexecParams q [] [] [] [])) = PGRES_COMMAND_OK \<longrightarrow>
      map_option (\<lambda>r. issued st (snd r)) (returned (exec X q st))
         = Some [PQexecParams q [] [] [] [], PQexec ''START TRANSACTION'']
      \<and> map_option fst (returned (exec X q st))
         = Some (if PQresultStatus (backend X (sent st @ [PQexecParams q [] [] [] []])
                      (PQexec ''START TRANSACTION'')) = PGRES_COMMAND_OK
                 then DBERR_NO_ERROR else DBERR_SQL_ERROR)
      \<and> (PQresultStatus (backend X (sent st @ [PQexecParams q [] [] [] []])
            (PQexec ''START TRANSACTION'')) = PGRES_COMMAND_OK \<and> starts_transactions X \<longrightarrow>
          map_option (\<lambda>r. in_transaction X (sent (snd r))) (returned (exec X q st)) = Some True)"
  using exec_commit [of st co X q] by blast

lemma exec_no_transaction:
  "connection_opts st = Some co \<and> autocommit co = Off \<and> is_tx_termination_statement X q
       \<and> PQresultStatus (backend X (sent st) (PQexecParams q [] [] [] [])) \<noteq> PGRES_COMMAND_OK \<longrightarrow>
      map_option (\<lambda>r. issued st (snd r)) (returned (exec X q st))
         = Some [PQexecParams q [] [] [] []]
      \<and> map_option fst (returned (exec X q st))
         = Some (if PQresultStatus (backend X (sent st) (PQexecParams q [] [] [] []))
                      = PGRES_TUPLES_OK
                 then DBERR_NO_ERROR else DBERR_SQL_ERROR)"
  using exec_failed_termination [of st co X q] by blast

lemma exec_params_transaction:
  "connection_opts st = Some co \<and> autocommit co = Off \<and> is_tx_termination_statement X q
       \<and> length ts = length vs \<and> length ts = length fs
       \<and> marshal_params X ts vs ls fs = Inr ps
       \<and> cmd = PQexecParams q (map fst ps) (map (fst \<circ> snd) ps)
                 (map (fst \<circ> snd \<circ> snd) ps) (map (snd \<circ> snd \<circ> snd) ps)
       \<and> PQresultStatus (backend X (sent st) cmd) = PGRES_COMMAND_OK \<longrightarrow>
      map_option (\<lambda>r. issued st (snd r)) (returned (exec_params X q ts vs ls fs st))
         = Some [cmd, PQexec ''START TRANSACTION'']
      \<and> map_option fst (returned (exec_params X q ts vs ls fs st))
         = Some (if PQresultStatus (backend X (sent st @ [cmd]) (PQexec ''START TRANSACTION''))
                      = PGRES_COMMAND_OK
                 then DBERR_NO_ERROR else DBERR_SQL_ERROR)
      \<and> (PQresultStatus (backend X (sent st @ [cmd]) (PQexec ''START TRANSACTION''))
            = PGRES_COMMAND_OK \<and> starts_transactions X \<longrightarrow>
          map_option (\<lambda>r. in_transaction X (sent (snd r)))
            (returned (exec_params X q ts vs ls fs st)) = Some True)"
  using exec_params_commit [of st co X q ts vs fs ls ps cmd] by blast

lemma exec_params_no_transaction:
  "connection_opts st = Some co \<and> autocommit co = Off \<and> is_tx_termination_statement X q
       \<and> length ts = length vs \<and> length ts = length fs
       \<and> marshal_params X ts vs ls fs = Inr ps
       \<and> cmd = PQexecParams q (map fst ps) (map (fst \<circ> snd) ps)
                 (map (fst \<circ> snd \<circ> snd) ps) (map (snd \<circ> snd \<circ> snd) ps)
       \<and> PQresultStatus (backend X (sent st) cmd) \<noteq> PGRES_COMMAND_OK \<longrightarrow>
      map_option (\<lambda>r. issued st (snd r)) (returned (exec_params X q ts vs ls fs st))
         = Some [cmd]
      \<and> map_option fst (returned (exec_params X q ts vs ls fs st))
         = Some (if PQresultStatus (backend X (sent st) cmd) = PGRES_TUPLES_OK
                 then DBERR_NO_ERROR else DBERR_SQL_ERROR)"
  using exec_params_failed_termination [of st co X q ts vs fs ls ps cmd] by blast

lemma starts_transactions_sample: "starts_transactions (sample_extern answer)"
  by (auto simp: starts_transactions_def sample_extern_def sample_transaction_def)

subsection \<open>Claim C6: rewriting of parameter markers\<close>

text \<open>
  The loop, in closed form: a \<^verbatim>\<open>?\<close> or a \<^verbatim>\<open>:\<close> that is read while an even number of
  single quotes and an even number of double quotes have gone by is replaced, together
  with the longest run of letters and digits directly after it, by \<^verbatim>\<open>$n\<close>; every other
  character is copied.
\<close>

lemma fixup_rewrites_markers: "pgsql_fixup_parameters sql = rewrite_markers 1 False False sql"
  by (simp add: pgsql_fixup_parameters_def fixup_loop_rewrite_markers)

text \<open>
  Claim C6: with \<^verbatim>\<open>fixup_parameters\<close> set, the rewriting \<^verbatim>\<open>prepare\<close> applies replaces each
  \<^verbatim>\<open>?\<close> marker and each \<^verbatim>\<open>:name\<close> marker outside quoted regions with \<^verbatim>\<open>$n\<close>, numbered
  from 1 from left to right, and copies the characters inside quoted regions verbatim.
  The loop does so on \<^verbatim>\<open>UPDATE T SET A=? WHERE K=:key AND N = ':n?'\<close>, and \<^verbatim>\<open>prepare\<close> sends
  what the loop returns. It does not on these statements:
  letters and digits directly after a \<^verbatim>\<open>?\<close> are dropped with it (\<^verbatim>\<open>K=?AND J=?\<close> becomes
  \<^verbatim>\<open>K=$1 J=$2\<close>, and \<^verbatim>\<open>prepare\<close> sends that);
  a double quote inside a single-quoted literal opens a double-quoted region for the
  loop, so the \<^verbatim>\<open>?\<close> after \<^verbatim>\<open>X='a"b'\<close> is left as it is;
  a name ends for the loop at the first character that is no letter and no digit
  (\<^verbatim>\<open>:user_id\<close> becomes \<^verbatim>\<open>$1_id\<close>, \<^verbatim>\<open>:HV-B\<close> becomes \<^verbatim>\<open>$1-B\<close>);
  and every colon is a marker for the loop, also those of a cast (\<^verbatim>\<open>a::int\<close> becomes
  \<^verbatim>\<open>a$1$2\<close>). The rewriting as the specification words it, \<open>spec_fixup\<close>, gives
  \<^verbatim>\<open>K=$1AND J=$2\<close>, \<^verbatim>\<open>X='a"b' AND Y=$1\<close>, \<^verbatim>\<open>ID = $1\<close>, \<^verbatim>\<open>A = $1\<close> and \<^verbatim>\<open>a::int\<close>.
\<close>

theorem C6_fixup_markers:
  "pgsql_fixup_parameters ''UPDATE T SET A=? WHERE K=:key AND N = ':n?' ''
     = ''UPDATE T SET A=$1 WHERE K=$2 AND N = ':n?' ''
   \<and> spec_fixup 1 False False ''UPDATE T SET A=? WHERE K=:key AND N = ':n?' ''
     = ''UPDATE T SET A=$1 WHERE K=$2 AND N = ':n?' ''
   \<and> pgsql_fixup_parameters ''K=?AND J=?'' = ''K=$1 J=$2''
   \<and> spec_fixup 1 False False ''K=?AND J=?'' = ''K=$1AND J=$2''
   \<and> map_option (\<lambda>r. issued (connected_driver On) (snd r))
        (returned (prepare (sample_extern (\<lambda>c. Some (command_ok []))) ''P1'' ''K=?AND J=?''
           (connected_driver On)))
        = Some [PQprepare ''p1'' ''K=$1 J=$2'']
   \<and> pgsql_fixup_parameters
        (''X='' @ [CHR 0x27, CHR ''a'', CHR 0x22, CHR ''b'', CHR 0x27] @ '' AND Y=?'')
     = ''X='' @ [CHR 0x27, CHR ''a'', CHR 0x22, CHR ''b'', CHR 0x27] @ '' AND Y=?''
   \<and> spec_fixup 1 False False
        (''X='' @ [CHR 0x27, CHR ''a'', CHR 0x22, CHR ''b'', CHR 0x27] @ '' AND Y=?'')
     = ''X='' @ [CHR 0x27, CHR ''a'', CHR 0x22, CHR ''b'', CHR 0x27] @ '' AND Y=$1''
   \<and> pgsql_fixup_parameters ''ID = :user_id'' = ''ID = $1_id''
   \<and> spec_fixup 1 False False ''ID = :user_id'' = ''ID = $1''
   \<and> pgsql_fixup_parameters ''A = :HV-B'' = ''A = $1-B''
   \<and> spec_fixup 1 False False ''A = :HV-B'' = ''A = $1''
   \<and> pgsql_fixup_parameters ''a::int'' = ''a$1$2''
   \<and> spec_fixup 1 False False ''a::int'' = ''a::int''"
  by (simp add: pgsql_fixup_parameters_def isalnum_def is_name_char_def to_string.simps
      digit_char_def driver_defs libpq_defs sample_defs issued_def to_lower_P1)

subsection \<open>Claim C10: closing a cursor\<close>




subsection \<open>Claim C8: statement names\<close>

lemma prepare_absent:
  assumes "prepared_stmts st (to_lower stmt_name) = None" "connection_opts st = Some co"
    and "sql = (if fixup_parameters co then pgsql_fixup_parameters query else query)"
  shows "map_option (\<lambda>r. issued st (snd r)) (returned (prepare X stmt_name query st))
            = Some [PQprepare (to_lower stmt_name) sql]
     \<and> map_option fst (returned (prepare X stmt_name query st))
            = Some (if PQresultStatus (backend X (sent st) (PQprepare (to_lower stmt_name) sql))
                         = PGRES_COMMAND_OK
                    then DBERR_NO_ERROR else DBERR_PREPARE_FAILED)
     \<and> map_option (\<lambda>r. prepared_stmts (snd r)) (returned (prepare X stmt_name query st))
            = Some (if PQresultStatus (backend X (sent st) (PQprepare (to_lower stmt_name) sql))
                         = PGRES_COMMAND_OK
                    then (prepared_stmts st)(to_lower stmt_name \<mapsto> None)
                    else prepared_stmts st)"
proof -
  define r where "r = backend X (sent st) (PQprepare (to_lower stmt_name) sql)"
  show ?thesis
    unfolding prepare_def Let_def pq_send_def
    using assms(1,2)
    by (simp add: assms(3) [symmetric] r_def [symmetric] set_last_def returned_def issued_def)
qed

lemma exec_prepared_known:
  assumes "prepared_stmts st (to_lower stmt_name) \<noteq> None"
    and "length ts = length vs" "length ts = length fs"
    and "marshal_params X ts vs ls fs = Inr ps"
    and "cmd = PQexecPrepared (to_lower stmt_name) (map (fst \<circ> snd) ps)
                 (map (fst \<circ> snd \<circ> snd) ps) (map (snd \<circ> snd \<circ> snd) ps)"
  shows "map_option (\<lambda>r. issued st (snd r)) (returned (exec_prepared X stmt_name ts vs ls fs st))
            = Some [cmd]
     \<and> map_option fst (returned (exec_prepared X stmt_name ts vs ls fs st))
            = Some (if PQresultStatus (backend X (sent st) cmd) = PGRES_COMMAND_OK
                       \<or> PQresultStatus (backend X (sent st) cmd) = PGRES_TUPLES_OK
                    then DBERR_NO_ERROR else DBERR_SQL_ERROR)"
proof -
  define r where "r = backend X (sent st) cmd"
  show ?thesis
    unfolding exec_prepared_def Let_def pq_send_def
    using assms(1-4)
    by (simp add: assms(5) [symmetric] r_def [symmetric] set_last_def returned_def issued_def)
qed

lemma prepare_table:
  "prepare X stmt_name query st = Inr (DBERR_PREPARE_FAILED, st')
     \<Longrightarrow> prepared_stmts st' = prepared_stmts st"
  "prepare X stmt_name query st = Inr (DBERR_NO_ERROR, st')
     \<Longrightarrow> prepared_stmts st' = (prepared_stmts st)(to_lower stmt_name \<mapsto> None)"
  by (auto simp: prepare_def Let_def pq_send_def set_last_def split: if_splits option.splits)

lemma prepare_names:
  "prepare X stmt_name query st = prepare X (to_lower stmt_name) query st"
  "exec_prepared X stmt_name ts vs ls fs st = exec_prepared X (to_lower stmt_name) ts vs ls fs st"
  by (simp_all add: prepare_def exec_prepared_def to_lower_idem)

lemma prepare_same_name:
  "to_lower a = to_lower b \<longrightarrow>
     prepare X a query st = prepare X b query st
     \<and> exec_prepared X a ts vs ls fs st = exec_prepared X b ts vs ls fs st"
  by (simp add: prepare_def exec_prepared_def)

lemma prepare_present:
  "prepared_stmts st (to_lower stmt_name) \<noteq> None \<longrightarrow>
     prepare X stmt_name query st = Inr (DBERR_PREPARE_FAILED, st)"
  by (simp add: prepare_def)

lemma prepare_new_name:
  "prepared_stmts st (to_lower stmt_name) = None \<and> connection_opts st = Some co
     \<and> sql = (if fixup_parameters co then pgsql_fixup_parameters query else query) \<longrightarrow>
     map_option (\<lambda>r. issued st (snd r)) (returned (prepare X stmt_name query st))
            = Some [PQprepare (to_lower stmt_name) sql]
     \<and> map_option fst (returned (prepare X stmt_name query st))
            = Some (if PQresultStatus (backend X (sent st) (PQprepare (to_lower stmt_name) sql))
                         = PGRES_COMMAND_OK
                    then DBERR_NO_ERROR else DBERR_PREPARE_FAILED)
     \<and> map_option (\<lambda>r. prepared_stmts (snd r)) (returned (prepare X stmt_name query st))
            = Some (if PQresultStatus (backend X (sent st) (PQprepare (to_lower stmt_name) sql))
                         = PGRES_COMMAND_OK
                    then (prepared_stmts st)(to_lower stmt_name \<mapsto> None)
                    else prepared_stmts st)"
  using prepare_absent [of st stmt_name co sql query X] by blast

lemma exec_prepared_unknown:
  "prepared_stmts st (to_lower stmt_name) = None \<longrightarrow>
     exec_prepared X stmt_name ts vs ls fs st = Inr (DBERR_SQL_ERROR, st)"
  by (simp add: exec_prepared_def)

lemma exec_prepared_sends:
  "prepared_stmts st (to_lower stmt_name) \<noteq> None
     \<and> length ts = length vs \<and> length ts = length fs
     \<and> marshal_params X ts vs ls fs = Inr ps
     \<and> cmd = PQexecPrepared (to_lower stmt_name) (map (fst \<circ> snd) ps)
                 (map (fst \<circ> snd \<circ> snd) ps) (map (snd \<circ> snd \<circ> snd) ps) \<longrightarrow>
     map_option (\<lambda>r. issued st (snd r)) (returned (exec_prepared X stmt_name ts vs ls fs st))
            = Some [cmd]
     \<and> map_option fst (returned (exec_prepared X stmt_name ts vs ls fs st))
            = Some (if PQresultStatus (backend X (sent st) cmd) = PGRES_COMMAND_OK
                       \<or> PQresultStatus (backend X (sent st) cmd) = PGRES_TUPLES_OK
                    then DBERR_NO_ERROR else DBERR_SQL_ERROR)"
  using exec_prepared_known [of st stmt_name ts vs fs X ls ps cmd] by blast

lemma prepare_then_present:
  "prepare X a query st = Inr (DBERR_NO_ERROR, st') \<and> to_lower b = to_lower a \<longrightarrow>
     prepared_stmts st' (to_lower b) \<noteq> None
     \<and> prepare X b query' st' = Inr (DBERR_PREPARE_FAILED, st')"
proof (intro impI, elim conjE)
  assume p: "prepare X a query st = Inr (DBERR_NO_ERROR, st')" and n: "to_lower b = to_lower a"
  from prepare_table(2) [OF p] have "prepared_stmts st' (to_lower b) \<noteq> None"
    by (simp add: n)
  then show "prepared_stmts st' (to_lower b) \<noteq> None
     \<and> prepare X b query' st' = Inr (DBERR_PREPARE_FAILED, st')"
    by (simp add: prepare_def)
qed

lemma prepare_failed_table:
  "prepare X stmt_name query st = Inr (DBERR_PREPARE_FAILED, st')
     \<longrightarrow> prepared_stmts st' = prepared_stmts st"
  using prepare_table(1) [of X stmt_name query st st'] by blast

lemma prepare_succeeded_table:
  "prepare X stmt_name query st = Inr (DBERR_NO_ERROR, st')
     \<longrightarrow> prepared_stmts st' = (prepared_stmts st)(to_lower stmt_name \<mapsto> None)"
  using prepare_table(2) [of X stmt_name query st st'] by blast

lemma fixup_select: "pgsql_fixup_parameters ''SELECT ?'' = ''SELECT $1''"
  by code_simp

text \<open>
  Claim C8: \<^verbatim>\<open>prepare(name, sql)\<close> works on the lower-cased name only. When a statement
  is present under the lower-cased name it returns \<^verbatim>\<open>DBERR_PREPARE_FAILED\<close> and leaves
  the driver, so the table of prepared statements, as it was. When none is present (and
  the driver has its connection options) it sends one \<^verbatim>\<open>PQprepare\<close>, under the lower-cased
  name, with the SQL text (rewritten if \<^verbatim>\<open>fixup_parameters\<close> is set); if the server accepts
  it the call returns \<^verbatim>\<open>DBERR_NO_ERROR\<close> and the table has gained the lower-cased name and
  nothing else, otherwise it returns \<^verbatim>\<open>DBERR_PREPARE_FAILED\<close> and the table is as it was.
  \<^verbatim>\<open>exec_prepared\<close> looks the lower-cased name up: if it is not in the table the call
  returns \<^verbatim>\<open>DBERR_SQL_ERROR\<close> and the driver is as it was; if it is (and the parameter
  arrays agree in length and marshal without a fault) the call sends one
  \<^verbatim>\<open>PQexecPrepared\<close>, under the lower-cased name, and returns \<^verbatim>\<open>DBERR_NO_ERROR\<close> or
  \<^verbatim>\<open>DBERR_SQL_ERROR\<close> as the server answers. So two names that differ in case only are
  the same statement for both functions, and after a successful \<^verbatim>\<open>prepare\<close> of a name every
  spelling of it is present in the table and cannot be prepared again.
\<close>

theorem C8_prepare_lower_case:
  "prepare X stmt_name query st = prepare X (to_lower stmt_name) query st
   \<and> exec_prepared X stmt_name ts vs ls fs st
        = exec_prepared X (to_lower stmt_name) ts vs ls fs st
   \<and> (to_lower a = to_lower b \<longrightarrow>
        prepare X a query st = prepare X b query st
        \<and> exec_prepared X a ts vs ls fs st = exec_prepared X b ts vs ls fs st)
   \<and> (prepared_stmts st (to_lower stmt_name) \<noteq> None \<longrightarrow>
        prepare X stmt_name query st = Inr (DBERR_PREPARE_FAILED, st))
   \<and> (prepared_stmts st (to_lower stmt_name) = None \<and> connection_opts st = Some co
        \<and> sql = (if fixup_parameters co then pgsql_fixup_parameters query else query) \<longrightarrow>
        map_option (\<lambda>r. issued st (snd r)) (returned (prepare X stmt_name query st))
            = Some [PQprepare (to_lower stmt_name) sql]
        \<and> map_option fst (returned (prepare X stmt_name query st))
            = Some (if PQresultStatus (backend X (sent st) (PQprepare (to_lower stmt_name) sql))
                         = PGRES_COMMAND_OK
                    then DBERR_NO_ERROR else DBERR_PREPARE_FAILED)
        \<and> map_option (\<lambda>r. prepared_stmts (snd r)) (returned (prepare X stmt_name query st))
            = Some (if PQresultStatus (backend X (sent st) (PQprepare (to_lower stmt_name) sql))
                         = PGRES_COMMAND_OK
                    then (prepared_stmts st)(to_lower stmt_name \<mapsto> None)
                    else prepared_stmts st))
   \<and> (prepared_stmts st (to_lower stmt_name) = None \<longrightarrow>
        exec_prepared X stmt_name ts vs ls fs st = Inr (DBERR_SQL_ERROR, st))
   \<and> (prepared_stmts st (to_lower stmt_name) \<noteq> None
        \<and> length ts = length vs \<and> length ts = length fs
        \<and> marshal_params X ts vs ls fs = Inr ps
        \<and> cmd = PQexecPrepared (to_lower stmt_name) (map (fst \<circ> snd) ps)
                 (map (fst \<circ> snd \<circ> snd) ps) (map (snd \<circ> snd \<circ> snd) ps) \<longrightarrow>
        map_option (\<lambda>r. issued st (snd r)) (returned (exec_prepared X stmt_name ts vs ls fs st))
            = Some [cmd]
        \<and> map_option fst (returned (exec_prepared X stmt_name ts vs ls fs st))
            = Some (if PQresultStatus (backend X (sent st) cmd) = PGRES_COMMAND_OK
                       \<or> PQresultStatus (backend X (sent st) cmd) = PGRES_TUPLES_OK
                    then DBERR_NO_ERROR else DBERR_SQL_ERROR))
   \<and> (prepare X a query st = Inr (DBERR_NO_ERROR, st') \<and> to_lower b = to_lower a \<longrightarrow>
        prepared_stmts st' (to_lower b) \<noteq> None
        \<and> prepare X b query' st' = Inr (DBERR_PREPARE_FAILED, st'))
   \<and> (prepare X stmt_name query st = Inr (DBERR_PREPARE_FAILED, st')
        \<longrightarrow> prepared_stmts st' = prepared_stmts st)
   \<and> (prepare X stmt_name query st = Inr (DBERR_NO_ERROR, st')
        \<longrightarrow> prepared_stmts st' = (prepared_stmts st)(to_lower stmt_name \<mapsto> None))"
  by (intro conjI prepare_names prepare_same_name prepare_present prepare_new_name
      exec_prepared_unknown exec_prepared_sends prepare_then_present prepare_failed_table
      prepare_succeeded_table)

theorem C8_prepare_lower_case_witness:
  "prepared_stmts (connected_driver On) (to_lower ''P1'') = None
   \<and> map_option (\<lambda>r. issued (connected_driver On) (snd r))
        (returned (prepare (sample_extern (\<lambda>c. Some (command_ok ''1''))) ''P1'' ''SELECT ?''
           (connected_driver On)))
        = Some [PQprepare ''p1'' ''SELECT $1'']
   \<and> prepare (sample_extern (\<lambda>c. Some (command_ok ''1''))) ''P1'' ''SELECT ?''
        (connected_driver On)
        = Inr (DBERR_NO_ERROR, after_prepare (sample_extern (\<lambda>c. Some (command_ok ''1''))))
   \<and> to_lower ''p1'' = to_lower ''P1''
   \<and> prepared_stmts (after_prepare (sample_extern (\<lambda>c. Some (command_ok ''1''))))
        (to_lower ''p1'') \<noteq> None
   \<and> prepare (sample_extern (\<lambda>c. Some (command_ok ''1''))) ''p1'' ''SELECT 2''
        (after_prepare (sample_extern (\<lambda>c. Some (command_ok ''1''))))
        = Inr (DBERR_PREPARE_FAILED, after_prepare (sample_extern (\<lambda>c. Some (command_ok ''1''))))
   \<and> map_option (\<lambda>r. issued (after_prepare (sample_extern (\<lambda>c. Some (command_ok ''1'')))) (snd r))
        (returned (exec_prepared (sample_extern (\<lambda>c. Some (command_ok ''1''))) ''p1'' [] [] [] []
           (after_prepare (sample_extern (\<lambda>c. Some (command_ok ''1''))))))
        = Some [PQexecPrepared ''p1'' [] [] []]
   \<and> map_option fst
        (returned (exec_prepared (sample_extern (\<lambda>c. Some (command_ok ''1''))) ''p1'' [] [] [] []
           (after_prepare (sample_extern (\<lambda>c. Some (command_ok ''1''))))))
        = Some DBERR_NO_ERROR
   \<and> exec_prepared (sample_extern (\<lambda>c. Some (command_ok ''1''))) ''S1'' [] [] [] []
        (after_prepare (sample_extern (\<lambda>c. Some (command_ok ''1''))))
        = Inr (DBERR_SQL_ERROR, after_prepare (sample_extern (\<lambda>c. Some (command_ok ''1''))))"
  using C8_prepare_lower_case [of "sample_extern (\<lambda>c. Some (command_ok ''1''))" "''P1''"
      "''SELECT ?''" "connected_driver On" "[]" "[]" "[]" "[]" "''P1''" "''p1''"
      "\<lparr>autocommit = On, fixup_parameters = True, client_encoding = []\<rparr>" "''SELECT $1''"
      "[]" "PQexecPrepared ''p1'' [] [] []"
      "after_prepare (sample_extern (\<lambda>c. Some (command_ok ''1'')))" "''SELECT 2''"]
    C8_prepare_lower_case [of "sample_extern (\<lambda>c. Some (command_ok ''1''))" "''p1''"
      "''SELECT 2''" "after_prepare (sample_extern (\<lambda>c. Some (command_ok ''1'')))"
      "[]" "[]" "[]" "[]" "''P1''" "''p1''"
      "\<lparr>autocommit = On, fixup_parameters = True, client_encoding = []\<rparr>" "''SELECT 2''"
      "[]" "PQexecPrepared ''p1'' [] [] []"
      "after_prepare (sample_extern (\<lambda>c. Some (command_ok ''1'')))" "''SELECT 2''"]
    C8_prepare_lower_case [of "sample_extern (\<lambda>c. Some (command_ok ''1''))" "''S1''"
      "''SELECT 2''" "after_prepare (sample_extern (\<lambda>c. Some (command_ok ''1'')))"
      "[]" "[]" "[]" "[]" "''P1''" "''p1''"
      "\<lparr>autocommit = On, fixup_parameters = True, client_encoding = []\<rparr>" "''SELECT 2''"
      "[]" "PQexecPrepared ''s1'' [] [] []"
      "after_prepare (sample_extern (\<lambda>c. Some (command_ok ''1'')))" "''SELECT 2''"]
  by (simp add: driver_defs libpq_defs sample_defs to_lower_P1 to_lower_p1 to_lower_S1
      fixup_select issued_def after_prepare_def)

subsection \<open>Claim C7: parameter arrays of different lengths\<close>

text \<open>
  Claim C7, as stated: a call of \<^verbatim>\<open>exec_params\<close> or \<^verbatim>\<open>exec_prepared\<close> whose arrays of
  types, values, lengths and flags are not all of the same length returns
  \<^verbatim>\<open>DBERR_INTERNAL_ERR\<close> and sends nothing. The driver compares the types with the
  values and with the flags, and not with the lengths: with one type, one value, one
  flag and two lengths the statement is sent and the call returns \<^verbatim>\<open>DBERR_NO_ERROR\<close>.
\<close>

theorem C7_lengths_counterexample:
  "length [1, 5 :: 64 word] \<noteq> length [''a'']
   \<and> map_option fst (returned (exec_params (sample_extern (\<lambda>c. Some (command_ok ''1'')))
        ''SELECT $1'' [COBOL_TYPE_ALPHANUMERIC] [''a''] [1, 5] [0] (connected_driver On)))
       = Some DBERR_NO_ERROR
   \<and> map_option (sent \<circ> snd) (returned (exec_params
        (sample_extern (\<lambda>c. Some (command_ok ''1''))) ''SELECT $1'' [COBOL_TYPE_ALPHANUMERIC]
        [''a''] [1, 5] [0] (connected_driver On)))
       = Some [PQexecParams ''SELECT $1'' [1043] [Some ''a''] [1] [0]]"
  by (simp add: driver_defs libpq_defs sample_defs OID_VARCHAR_def)

text \<open>
  Claim C7, amended: a call of \<^verbatim>\<open>exec_params\<close> whose array of types differs in length
  from the array of values or from the array of flags returns \<^verbatim>\<open>DBERR_INTERNAL_ERR\<close>,
  with that code and its message as the last error, and sends nothing (the driver is
  otherwise as it was); so does a call of \<^verbatim>\<open>exec_prepared\<close> on the name of a prepared
  statement, and on an unknown name it returns \<^verbatim>\<open>DBERR_SQL_ERROR\<close> and sends nothing.
  The array of lengths is not compared.
\<close>

theorem C7_parameter_count_mismatch:
  assumes "length ts \<noteq> length vs \<or> length ts \<noteq> length fs"
  shows "exec_params X q ts vs ls fs st =
           Inr (DBERR_INTERNAL_ERR,
                st\<lparr>last_error := ''Internal error: parameter count mismatch'',
                   last_rc := dberr_code X DBERR_INTERNAL_ERR\<rparr>)
     \<and> (prepared_stmts st (to_lower n) \<noteq> None \<longrightarrow>
          exec_prepared X n ts vs ls fs st =
           Inr (DBERR_INTERNAL_ERR,
                st\<lparr>last_error := ''Internal error: parameter count mismatch'',
                   last_rc := dberr_code X DBERR_INTERNAL_ERR\<rparr>))
     \<and> (prepared_stmts st (to_lower n) = None \<longrightarrow>
          exec_prepared X n ts vs ls fs st = Inr (DBERR_SQL_ERROR, st))
     \<and> sent (st\<lparr>last_error := ''Internal error: parameter count mismatch'',
                 last_rc := dberr_code X DBERR_INTERNAL_ERR\<rparr>) = sent st"
  using assms
  by (auto simp: exec_params_def pgsql_exec_params_def exec_prepared_def Let_def)

theorem C7_parameter_count_mismatch_witness:
  "length [COBOL_TYPE_ALPHANUMERIC] \<noteq> length ([] :: string list)
   \<and> map_option fst (returned (exec_params (sample_extern (\<lambda>c. Some (command_ok ''1'')))
        ''SELECT $1'' [COBOL_TYPE_ALPHANUMERIC] [] [1] [0] (connected_driver On)))
       = Some DBERR_INTERNAL_ERR
   \<and> map_option (sent \<circ> snd) (returned (exec_params
        (sample_extern (\<lambda>c. Some (command_ok ''1''))) ''SELECT $1'' [COBOL_TYPE_ALPHANUMERIC]
        [] [1] [0] (connected_driver On))) = Some []
   \<and> map_option fst (returned (exec_prepared (sample_extern (\<lambda>c. Some (command_ok ''1'')))
        ''P1'' [COBOL_TYPE_ALPHANUMERIC] [] [1] [0] driver_with_p1)) = Some DBERR_INTERNAL_ERR
   \<and> map_option (sent \<circ> snd) (returned (exec_prepared
        (sample_extern (\<lambda>c. Some (command_ok ''1''))) ''P1'' [COBOL_TYPE_ALPHANUMERIC] [] [1] [0]
        driver_with_p1)) = Some []"
  using C7_parameter_count_mismatch [of "[COBOL_TYPE_ALPHANUMERIC]" "[]" "[0]"
      "sample_extern (\<lambda>c. Some (command_ok ''1''))" "''SELECT $1''" "[1]" "connected_driver On" "''P1''"]
    C7_parameter_count_mismatch [of "[COBOL_TYPE_ALPHANUMERIC]" "[]" "[0]"
      "sample_extern (\<lambda>c. Some (command_ok ''1''))" "''SELECT $1''" "[1]" driver_with_p1 "''P1''"]
  by (simp add: returned_def sample_defs to_lower_P1)

subsection \<open>Claim C5: autocommit off\<close>

text \<open>
  Claim C5, as stated: with autocommit off, \<^verbatim>\<open>connect\<close> issues one \<^verbatim>\<open>BEGIN TRANSACTION\<close>,
  every \<^verbatim>\<open>COMMIT\<close> or \<^verbatim>\<open>ROLLBACK\<close> that succeeds is followed by \<^verbatim>\<open>START TRANSACTION\<close>, so
  that exactly one transaction is open between successful calls. The last part does not
  hold. On a server that answers \<^verbatim>\<open>COMMIT\<close> with a serialisation failure (which ends the
  transaction) and accepts everything else, \<^verbatim>\<open>connect\<close> succeeds and a transaction is open;
  \<^verbatim>\<open>exec("COMMIT")\<close> returns \<^verbatim>\<open>DBERR_SQL_ERROR\<close> and sends no \<^verbatim>\<open>START TRANSACTION\<close>; the next
  call \<^verbatim>\<open>exec("SELECT 1")\<close> succeeds, and so does \<^verbatim>\<open>exec("SELECT 2")\<close> after it: between
  these two successful calls no transaction is open.
\<close>

theorem C5_failed_commit_counterexample:
  "fst (connect (sample_extern failing_commit) sample_info autocommit_off new_driver)
      = DBERR_NO_ERROR
   \<and> in_transaction (sample_extern failing_commit)
        (sent (after_connect (sample_extern failing_commit)))
   \<and> map_option fst (returned (exec (sample_extern failing_commit) ''COMMIT''
          (after_connect (sample_extern failing_commit)))) = Some DBERR_SQL_ERROR
   \<and> map_option (\<lambda>r. issued (after_connect (sample_extern failing_commit)) (snd r))
        (returned (exec (sample_extern failing_commit) ''COMMIT''
          (after_connect (sample_extern failing_commit))))
        = Some [PQexecParams ''COMMIT'' [] [] [] []]
   \<and> map_option fst (returned (exec (sample_extern failing_commit) ''SELECT 1''
          (after_exec (sample_extern failing_commit) ''COMMIT''
            (after_connect (sample_extern failing_commit))))) = Some DBERR_NO_ERROR
   \<and> \<not> in_transaction (sample_extern failing_commit)
        (sent (after_exec (sample_extern failing_commit) ''SELECT 1''
          (after_exec (sample_extern failing_commit) ''COMMIT''
            (after_connect (sample_extern failing_commit)))))
   \<and> map_option fst (returned (exec (sample_extern failing_commit) ''SELECT 2''
          (after_exec (sample_extern failing_commit) ''SELECT 1''
            (after_exec (sample_extern failing_commit) ''COMMIT''
              (after_connect (sample_extern failing_commit)))))) = Some DBERR_NO_ERROR"
  by (simp add: driver_defs libpq_defs sample_defs connect_def connect_client_encoding_def
      connect_default_schema_def connect_autocommit_def read_driver_options_def issued_def
      CONNECTION_OK_def)

text \<open>
  Claim C5, amended: with the connection option autocommit off, a \<^verbatim>\<open>connect\<close> that succeeds
  has issued \<^verbatim>\<open>BEGIN TRANSACTION\<close> exactly once, as the last command it sent (after the
  client encoding and the search path, when these are configured), and the server has
  accepted it; when a statement that \<^verbatim>\<open>is_tx_termination_statement\<close> recognises (\<^verbatim>\<open>COMMIT\<close>,
  \<^verbatim>\<open>ROLLBACK\<close>) succeeds through \<^verbatim>\<open>exec\<close> or \<^verbatim>\<open>exec_params\<close>, the driver has sent that
  statement and directly after it \<^verbatim>\<open>START TRANSACTION\<close>, once, and nothing else, and the call
  returns \<^verbatim>\<open>DBERR_NO_ERROR\<close> when the server accepted the \<^verbatim>\<open>START TRANSACTION\<close> and
  \<^verbatim>\<open>DBERR_SQL_ERROR\<close> when it did not; when such a statement fails, the driver has sent it
  alone, no \<^verbatim>\<open>START TRANSACTION\<close> follows, and the call returns \<^verbatim>\<open>DBERR_SQL_ERROR\<close>
  (\<^verbatim>\<open>DBERR_NO_ERROR\<close> if the server answered with rows). So, on every server on which an
  accepted \<^verbatim>\<open>BEGIN TRANSACTION\<close> or \<^verbatim>\<open>START TRANSACTION\<close> leaves a transaction open
  (\<open>starts_transactions\<close>), a transaction is open when \<^verbatim>\<open>connect\<close> returns
  \<^verbatim>\<open>DBERR_NO_ERROR\<close> and when \<^verbatim>\<open>exec\<close> or \<^verbatim>\<open>exec_params\<close> returns \<^verbatim>\<open>DBERR_NO_ERROR\<close> for a
  \<^verbatim>\<open>COMMIT\<close> or \<^verbatim>\<open>ROLLBACK\<close> the server accepted. The parameters of \<^verbatim>\<open>exec_params\<close> are taken
  to be marshalled without a fault (\<open>marshal_params\<close> returns).
\<close>

theorem C5_autocommit_off:
  "(autocommit conn_opts = Off \<and> connect X info conn_opts st0 = (DBERR_NO_ERROR, st1) \<longrightarrow>
      count_list (issued st0 st1) (PQexec ''BEGIN TRANSACTION'') = 1
      \<and> last (issued st0 st1) = PQexec ''BEGIN TRANSACTION''
      \<and> PQresultStatus (backend X (butlast (sent st1)) (PQexec ''BEGIN TRANSACTION''))
           = PGRES_COMMAND_OK
      \<and> (starts_transactions X \<longrightarrow> in_transaction X (sent st1)))
   \<and> (connection_opts st = Some co \<and> autocommit co = Off \<and> is_tx_termination_statement X q
       \<and> PQresultStatus (backend X (sent st) (PQexecParams q [] [] [] [])) = PGRES_COMMAND_OK \<longrightarrow>
      map_option (\<lambda>r. issued st (snd r)) (returned (exec X q st))
         = Some [PQexecParams q [] [] [] [], PQexec ''START TRANSACTION'']
      \<and> map_option fst (returned (exec X q st))
         = Some (if PQresultStatus (backend X (sent st @ [PQexecParams q [] [] [] []])
                      (PQexec ''START TRANSACTION'')) = PGRES_COMMAND_OK
                 then DBERR_NO_ERROR else DBERR_SQL_ERROR)
      \<and> (PQresultStatus (backend X (sent st @ [PQexecParams q [] [] [] []])
            (PQexec ''START TRANSACTION'')) = PGRES_COMMAND_OK \<and> starts_transactions X \<longrightarrow>
          map_option (\<lambda>r. in_transaction X (sent (snd r))) (returned (exec X q st)) = Some True))
   \<and> (connection_opts st = Some co \<and> autocommit co = Off \<and> is_tx_termination_statement X q
       \<and> PQresultStatus (backend X (sent st) (PQexecParams q [] [] [] [])) \<noteq> PGRES_COMMAND_OK \<longrightarrow>
      map_option (\<lambda>r. issued st (snd r)) (returned (exec X q st))
         = Some [PQexecParams q [] [] [] []]
      \<and> map_option fst (returned (exec X q st))
         = Some (if PQresultStatus (backend X (sent st) (PQexecParams q [] [] [] []))
                      = PGRES_TUPLES_OK
                 then DBERR_NO_ERROR else DBERR_SQL_ERROR))
   \<and> (connection_opts st = Some co \<and> autocommit co = Off \<and> is_tx_termination_statement X q
       \<and> length ts = length vs \<and> length ts = length fs
       \<and> marshal_params X ts vs ls fs = Inr ps
       \<and> cmd = PQexecParams q (map fst ps) (map (fst \<circ> snd) ps)
                 (map (fst \<circ> snd \<circ> snd) ps) (map (snd \<circ> snd \<circ> snd) ps)
       \<and> PQresultStatus (backend X (sent st) cmd) = PGRES_COMMAND_OK \<longrightarrow>
      map_option (\<lambda>r. issued st (snd r)) (returned (exec_params X q ts vs ls fs st))
         = Some [cmd, PQexec ''START TRANSACTION'']
      \<and> map_option fst (returned (exec_params X q ts vs ls fs st))
         = Some (if PQresultStatus (backend X (sent st @ [cmd]) (PQexec ''START TRANSACTION''))
                      = PGRES_COMMAND_OK
                 then DBERR_NO_ERROR else DBERR_SQL_ERROR)
      \<and> (PQresultStatus (backend X (sent st @ [cmd]) (PQexec ''START TRANSACTION''))
            = PGRES_COMMAND_OK \<and> starts_transactions X \<longrightarrow>
          map_option (\<lambda>r. in_transaction X (sent (snd r)))
            (returned (exec_params X q ts vs ls fs st)) = Some True))
   \<and> (connection_opts st = Some co \<and> autocommit co = Off \<and> is_tx_termination_statement X q
       \<and> length ts = length vs \<and> length ts = length fs
       \<and> marshal_params X ts vs ls fs = Inr ps
       \<and> cmd = PQexecParams q (map fst ps) (map (fst \<circ> snd) ps)
                 (map (fst \<circ> snd \<circ> snd) ps) (map (snd \<circ> snd \<circ> snd) ps)
       \<and> PQresultStatus (backend X (sent st) cmd) \<noteq> PGRES_COMMAND_OK \<longrightarrow>
      map_option (\<lambda>r. issued st (snd r)) (returned (exec_params X q ts vs ls fs st))
         = Some [cmd]
      \<and> map_option fst (returned (exec_params X q ts vs ls fs st))
         = Some (if PQresultStatus (backend X (sent st) cmd) = PGRES_TUPLES_OK
                 then DBERR_NO_ERROR else DBERR_SQL_ERROR))"
  by (intro conjI connect_transaction exec_transaction exec_no_transaction
      exec_params_transaction exec_params_no_transaction)

theorem C5_autocommit_off_witness:
  "autocommit autocommit_off = Off
   \<and> starts_transactions (sample_extern (\<lambda>c. Some (command_ok [])))
   \<and> fst (connect (sample_extern (\<lambda>c. Some (command_ok []))) sample_info autocommit_off new_driver)
        = DBERR_NO_ERROR
   \<and> issued new_driver (after_connect (sample_extern (\<lambda>c. Some (command_ok []))))
        = [PQsetClientEncoding ''UTF8'', PQexec ''set search_path to app'',
           PQexec ''BEGIN TRANSACTION'']
   \<and> count_list (issued new_driver (after_connect (sample_extern (\<lambda>c. Some (command_ok [])))))
        (PQexec ''BEGIN TRANSACTION'') = 1
   \<and> in_transaction (sample_extern (\<lambda>c. Some (command_ok [])))
        (sent (after_connect (sample_extern (\<lambda>c. Some (command_ok [])))))
   \<and> map_option (\<lambda>r. issued (after_connect (sample_extern (\<lambda>c. Some (command_ok [])))) (snd r))
        (returned (exec (sample_extern (\<lambda>c. Some (command_ok []))) ''COMMIT''
           (after_connect (sample_extern (\<lambda>c. Some (command_ok []))))))
        = Some [PQexecParams ''COMMIT'' [] [] [] [], PQexec ''START TRANSACTION'']
   \<and> map_option fst (returned (exec (sample_extern (\<lambda>c. Some (command_ok []))) ''COMMIT''
           (after_connect (sample_extern (\<lambda>c. Some (command_ok [])))))) = Some DBERR_NO_ERROR
   \<and> map_option (\<lambda>r. in_transaction (sample_extern (\<lambda>c. Some (command_ok []))) (sent (snd r)))
        (returned (exec (sample_extern (\<lambda>c. Some (command_ok []))) ''COMMIT''
           (after_connect (sample_extern (\<lambda>c. Some (command_ok [])))))) = Some True
   \<and> map_option (\<lambda>r. issued (after_connect (sample_extern (\<lambda>c. Some (command_ok [])))) (snd r))
        (returned (exec_params (sample_extern (\<lambda>c. Some (command_ok []))) ''ROLLBACK'' [] [] [] []
           (after_connect (sample_extern (\<lambda>c. Some (command_ok []))))))
        = Some [PQexecParams ''ROLLBACK'' [] [] [] [], PQexec ''START TRANSACTION'']
   \<and> map_option (\<lambda>r. issued (after_connect (sample_extern failing_commit)) (snd r))
        (returned (exec (sample_extern failing_commit) ''COMMIT''
           (after_connect (sample_extern failing_commit))))
        = Some [PQexecParams ''COMMIT'' [] [] [] []]
   \<and> map_option fst (returned (exec (sample_extern failing_commit) ''COMMIT''
           (after_connect (sample_extern failing_commit)))) = Some DBERR_SQL_ERROR"
  using C5_autocommit_off [of autocommit_off "sample_extern (\<lambda>c. Some (command_ok []))" sample_info
      new_driver "after_connect (sample_extern (\<lambda>c. Some (command_ok [])))"
      "after_connect (sample_extern (\<lambda>c. Some (command_ok [])))" autocommit_off
      "''COMMIT''" "[]" "[]" "[]" "[]" "[]" "PQexecParams ''COMMIT'' [] [] [] []"]
    C5_autocommit_off [of autocommit_off "sample_extern failing_commit" sample_info
      new_driver "after_connect (sample_extern failing_commit)"
      "after_connect (sample_extern failing_commit)" autocommit_off
      "''COMMIT''" "[]" "[]" "[]" "[]" "[]" "PQexecParams ''COMMIT'' [] [] [] []"]
  by (simp add: driver_defs libpq_defs sample_defs connect_def connect_client_encoding_def
      connect_default_schema_def connect_autocommit_def read_driver_options_def issued_def
      CONNECTION_OK_def starts_transactions_def)

subsection \<open>Claim C3: moving to the first record\<close>





text \<open>
  For every result set, whatever its command status: the call returns true exactly when
  a result set is held and the count \<^verbatim>\<open>get_num_rows\<close> reads is positive.
\<close>

lemma move_to_first_record_num_rows:
  assumes "dberr_code X DBERR_NO_DATA = 100"
  shows "(fst (move_to_first_record X n st)
            \<longleftrightarrow> result_set_of st n \<noteq> None \<and> 0 < get_num_rows (result_set_of st n))
    \<and> (fst (move_to_first_record X n st) \<longrightarrow> snd (move_to_first_record X n st) = st)
    \<and> (result_set_of st n \<noteq> None \<and> get_num_rows (result_set_of st n) \<le> 0 \<longrightarrow>
          get_error_code (snd (move_to_first_record X n st)) = 100
          \<and> get_state (snd (move_to_first_record X n st)) = ''02000'')
    \<and> (result_set_of st n = None \<longrightarrow>
          get_error_code (snd (move_to_first_record X n st))
             = dberr_code X DBERR_MOVE_TO_FIRST_FAILED
          \<and> get_state (snd (move_to_first_record X n st)) = ''HY000'')"
  using assms
  by (auto simp: move_to_first_record_def result_set_of_def Let_def pgsqlSetError_def
        get_error_code_def get_state_def split: option.splits)

subsection \<open>Claim C2: statements that change no row\<close>

text \<open>
  Claim C2: an \<^verbatim>\<open>UPDATE\<close> that succeeds and changes no row makes \<^verbatim>\<open>exec\<close> return an error,
  after which \<^verbatim>\<open>get_error_code()\<close> is 100 and \<^verbatim>\<open>get_state()\<close> is \<^verbatim>\<open>02000\<close>. The driver
  stores 100 into \<^verbatim>\<open>last_rc\<close> and leaves \<^verbatim>\<open>last_state\<close> as the result of the statement
  gave it, which for a successful statement is \<^verbatim>\<open>00000\<close>.
\<close>

theorem C2_zero_rows_state:
  "map_option fst (returned (exec (sample_extern (\<lambda>c. Some (command_ok ''0'')))
       ''UPDATE T SET A = 1 WHERE 1 = 0'' (connected_driver On))) = Some DBERR_SQL_ERROR
   \<and> map_option (get_error_code \<circ> snd) (returned (exec (sample_extern (\<lambda>c. Some (command_ok ''0'')))
       ''UPDATE T SET A = 1 WHERE 1 = 0'' (connected_driver On))) = Some 100
   \<and> map_option (get_state \<circ> snd) (returned (exec (sample_extern (\<lambda>c. Some (command_ok ''0'')))
       ''UPDATE T SET A = 1 WHERE 1 = 0'' (connected_driver On))) = Some ''00000''
   \<and> map_option (get_state \<circ> snd) (returned (exec_params
       (sample_extern (\<lambda>c. Some (command_ok ''0''))) ''DELETE FROM T WHERE 1 = 0'' [] [] [] []
       (connected_driver On))) = Some ''00000''"
  by (simp add: driver_defs libpq_defs sample_defs atoi_0 get_error_code_def get_state_def)

text \<open>
  In general: an update or delete statement that succeeds with no row makes \<^verbatim>\<open>exec\<close>
  return \<^verbatim>\<open>DBERR_SQL_ERROR\<close> with 100 as the error code, and the SQLSTATE is the one
  \<^verbatim>\<open>pg_get_sqlstate\<close> read from the result.
\<close>

lemma exec_zero_rows:
  assumes "connection_opts st = Some co"
    and "\<not> (autocommit co = Off \<and> is_tx_termination_statement X q)"
    and "is_update_or_delete_statement X q"
    and "r = backend X (sent st) (PQexecParams q [] [] [] [])"
    and "PQresultStatus r = PGRES_COMMAND_OK" "get_num_rows r \<le> 0"
  shows "map_option fst (returned (exec X q st)) = Some DBERR_SQL_ERROR
     \<and> map_option (get_error_code \<circ> snd) (returned (exec X q st)) = Some 100
     \<and> map_option (get_state \<circ> snd) (returned (exec X q st)) = Some (pg_get_sqlstate r)"
proof -
  have nt: "(autocommit co = Off \<and> is_tx_termination_statement X q) = False"
    using assms(2) by simp
  have "pgsql_exec X None q st =
      Inr (DBERR_SQL_ERROR, None,
           (set_last r ((if same_object (current_resultset_data st) (current_resultset_data st)
                         then st\<lparr>current_resultset_data := None\<rparr> else st)
                        \<lparr>sent := sent st @ [PQexecParams q [] [] [] []],
                         next_rs := Suc (next_rs st)\<rparr>))\<lparr>last_rc := 100\<rparr>)"
    unfolding pgsql_exec_def Let_def pq_send_def
    using assms(1,3,5,6)
    by (simp add: assms(4) [symmetric] set_last_def nt)
  then show ?thesis
    by (simp add: exec_def returned_def get_error_code_def get_state_def set_last_def)
qed

subsection \<open>Claim C1: the caller's buffer\<close>

text \<open>
  Claim C1: \<^verbatim>\<open>get_resultset_value\<close> returns false when the value is longer than
  \<^verbatim>\<open>bfrlen\<close>, and never writes past \<^verbatim>\<open>bfr + bfrlen\<close>. For a text column whose value
  has exactly \<^verbatim>\<open>bfrlen\<close> characters the call returns true and copies the value with its
  terminator: with the value \<^verbatim>\<open>abc\<close> and \<^verbatim>\<open>bfrlen\<close> 3, on a buffer filled with
  \<^verbatim>\<open>#\<close>, the byte at offset 3 is the terminator afterwards.
\<close>

theorem C1_write_past_bfrlen:
  "map_option fst (returned (get_resultset_value (sample_extern (\<lambda>c. None)) CurrentResultSet 0 0
       (\<lambda>i. CHR ''#'') 3 False (driver_holding (one_row ''abc'')))) = Some True
   \<and> map_option (\<lambda>r. bfr (snd r) 3) (returned (get_resultset_value (sample_extern (\<lambda>c. None))
       CurrentResultSet 0 0 (\<lambda>i. CHR ''#'') 3 False (driver_holding (one_row ''abc''))))
       = Some (CHR 0x00)"
  by (simp add: get_resultset_value_def copy_value_def returned_def Let_def sample_defs
      PQgetvalue_def PQgetisnull_def PQftype_def in_range_def strlen_def c_str_def memcpy_def
      OID_BYTEA_def)

text \<open>
  What holds of the buffer: a value longer than \<^verbatim>\<open>bfrlen\<close> makes the call return false
  with the buffer as it was, and no call writes at an offset above \<^verbatim>\<open>bfrlen\<close>.
\<close>

lemma copy_value_too_long:
  assumes "PQgetvalue (resultset rs) row col = Some res"
    and "PQftype (resultset rs) col \<noteq> OID_BYTEA \<or> decode = 0"
    and "unat bfrlen < strlen res"
  shows "copy_value X (Some rs) row col bfrlen decode out0 = (False, out0)"
  using assms by (auto simp: copy_value_def Let_def)

lemma copy_value_too_long_binary:
  assumes "PQgetvalue (resultset rs) row col = Some res"
    and "\<not> (strlen res = 0 \<and> PQgetisnull (resultset rs) row col)"
    and "PQftype (resultset rs) col = OID_BYTEA" "decode \<noteq> 0"
    and "PQunescapeBytea X res = Some v" "unat bfrlen < length v"
  shows "copy_value X (Some rs) row col bfrlen decode out0 = (False, out0)"
  using assms by (auto simp: copy_value_def Let_def)

lemma copy_value_bound:
  assumes "copy_value X wk_rs row col bfrlen decode out0 = (ok, out)" "unat bfrlen < i"
  shows "bfr out i = bfr out0 i"
  using assms
  by (auto simp: copy_value_def Let_def memcpy_def memset_def split: option.splits if_splits)

lemma get_resultset_value_bound:
  assumes "get_resultset_value X ctx row col bfr0 bfrlen n0 st = Inr (ok, out)" "unat bfrlen < i"
  shows "bfr out i = bfr0 i"
proof -
  define out0 where "out0 = \<lparr>bfr = bfr0, value_len = 0, is_db_null = n0\<rparr>"
  have b: "bfr out0 = bfr0" by (simp add: out0_def)
  from assms(1) have "out = out0 \<or> (\<exists>w r. copy_value X w r col bfrlen (decode_binary st) out0 = (ok, out))"
    unfolding get_resultset_value_def Let_def out0_def [symmetric]
    by (auto split: ResultSetContext.splits option.splits)
  then show ?thesis
    using copy_value_bound [OF _ assms(2)] b by auto
qed

subsection \<open>Claim C4: the input of each step\<close>

text \<open>
  The calls that \<open>transform_loop\<close> adds, when it is at step \<open>k\<close> of the list with the
  step before it as \<^verbatim>\<open>prev_step\<close>: their indices are from \<open>k\<close> on, a call of step 0
  sees the store the loop started with, and a later step that is not the object of step
  0 is called with the output of the step before it as its input.
\<close>

lemma transform_loop_calls:
  assumes "transform_loop E ss k prev rest \<sigma> calls = Inr (b, \<sigma>', calls')"
    and "rest = drop k ss"
    and "k = 0 \<or> prev = Some (ss ! (k - 1))"
  shows "\<exists>new. calls' = calls @ new \<and> map fst new = [k ..< k + length new]
           \<and> (\<forall>c \<in> set new. chained ss c \<and> (fst c = 0 \<longrightarrow> snd (snd c) = \<sigma>))"
  using assms
proof (induction rest arbitrary: k prev \<sigma> calls)
  case Nil
  then show ?case by simp
next
  case (Cons step rest)
  from Cons.prems(2) have k: "k < length ss"
    by (cases "k < length ss") auto
  from Cons_nth_drop_Suc [OF k] Cons.prems(2)
  have "ss ! k = step \<and> rest = drop (Suc k) ss"
    by (metis list.inject)
  then have step: "ss ! k = step" and rest: "rest = drop (Suc k) ss"
    by simp_all
  from k obtain first others where ss: "ss = first # others" by (cases ss) auto
  then have first: "first = ss ! 0" by simp
  define \<sigma>1 where "\<sigma>1 = (if step \<noteq> first
      then \<sigma>(step := setInput (getOutput (\<sigma> (ss ! (k - 1)))) (\<sigma> step)) else \<sigma>)"
  have pre: "(if step \<noteq> first
                 then (case prev of
                         None \<Rightarrow> Inl Null_dereference
                       | Some p \<Rightarrow> Inr (\<sigma>(step := setInput (getOutput (\<sigma> p)) (\<sigma> step))))
                 else Inr \<sigma>) = Inr \<sigma>1"
  proof (cases "step = first")
    case True
    then show ?thesis by (simp add: \<sigma>1_def)
  next
    case False
    with step first have "k \<noteq> 0" by (cases "k = 0") auto
    with Cons.prems(3) have "prev = Some (ss ! (k - 1))" by simp
    with False show ?thesis by (simp add: \<sigma>1_def)
  qed
  have here: "chained ss (k, step, \<sigma>1)
      \<and> (fst (k, step, \<sigma>1) = 0 \<longrightarrow> snd (snd (k, step, \<sigma>1)) = \<sigma>)"
    using k step first
    by (auto simp: chained_def \<sigma>1_def setInput_def)
  obtain ok \<sigma>2 where r: "run E step prev \<sigma>1 = (ok, \<sigma>2)" by (cases "run E step prev \<sigma>1")
  show ?case
  proof (cases ok)
    case False
    with Cons.prems(1) r pre have "calls' = calls @ [(k, step, \<sigma>1)]"
      by (simp add: ss)
    with here show ?thesis by auto
  next
    case True
    with Cons.prems(1) r pre
    have "transform_loop E ss (Suc k) (Some step) rest \<sigma>2 (calls @ [(k, step, \<sigma>1)]) = Inr (b, \<sigma>', calls')"
      by (simp add: ss)
    from Cons.IH [OF this rest] step
    obtain new where new: "calls' = (calls @ [(k, step, \<sigma>1)]) @ new"
      and idx: "map fst new = [Suc k ..< Suc k + length new]"
      and all: "\<forall>c \<in> set new. chained ss c \<and> (fst c = 0 \<longrightarrow> snd (snd c) = \<sigma>2)"
      by auto
    have later: "fst c \<noteq> 0" if "c \<in> set new" for c
    proof -
      from that have "fst c \<in> set (map fst new)" by simp
      then have "Suc k \<le> fst c" unfolding idx by auto
      then show ?thesis by simp
    qed
    have "calls' = calls @ ((k, step, \<sigma>1) # new)" using new by simp
    moreover have "map fst ((k, step, \<sigma>1) # new) = [k ..< k + length ((k, step, \<sigma>1) # new)]"
    proof -
      have "[k ..< k + Suc (length new)] = k # [Suc k ..< Suc k + length new]"
        by (subst upt_rec) simp
      with idx show ?thesis by simp
    qed
    moreover have "\<forall>c \<in> set ((k, step, \<sigma>1) # new).
        chained ss c \<and> (fst c = 0 \<longrightarrow> snd (snd c) = \<sigma>)"
    proof
      fix c
      assume "c \<in> set ((k, step, \<sigma>1) # new)"
      then consider "c = (k, step, \<sigma>1)" | "c \<in> set new" by auto
      then show "chained ss c \<and> (fst c = 0 \<longrightarrow> snd (snd c) = \<sigma>)"
      proof cases
        case 1
        with here show ?thesis by simp
      next
        case 2
        with all later [OF 2] show ?thesis by simp
      qed
    qed
    ultimately show ?thesis by blast
  qed
qed

lemma transform_loop_returns:
  assumes "rest = drop k ss" "k = 0 \<or> prev \<noteq> None"
  shows "\<exists>r. transform_loop E ss k prev rest \<sigma> calls = Inr r"
  using assms
proof (induction rest arbitrary: k prev \<sigma> calls)
  case Nil
  show ?case by auto
next
  case (Cons step rest)
  from Cons.prems(1) have k: "k < length ss"
    by (cases "k < length ss") auto
  from Cons_nth_drop_Suc [OF k] Cons.prems(1)
  have "ss ! k = step \<and> rest = drop (Suc k) ss"
    by (metis list.inject)
  then have step: "ss ! k = step" and rest: "rest = drop (Suc k) ss"
    by simp_all
  from k obtain first others where ss: "ss = first # others" by (cases ss) auto
  have "step \<noteq> first \<Longrightarrow> prev \<noteq> None"
    using Cons.prems(2) step ss by auto
  then obtain \<sigma>1 where pre: "(if step \<noteq> first
                 then (case prev of
                         None \<Rightarrow> Inl Null_dereference
                       | Some p \<Rightarrow> Inr (\<sigma>(step := setInput (getOutput (\<sigma> p)) (\<sigma> step))))
                 else Inr \<sigma>) = Inr \<sigma>1"
    by (cases "step = first") auto
  obtain ok \<sigma>2 where r: "run E step prev \<sigma>1 = (ok, \<sigma>2)" by (cases "run E step prev \<sigma>1")
  from Cons.IH [OF rest, of "Some step" \<sigma>2 "calls @ [(k, step, \<sigma>1)]"]
  show ?case using pre r by (auto simp: ss)
qed

text \<open>
  What \<^verbatim>\<open>process\<close> does for every list of steps: the calls of \<^verbatim>\<open>run\<close> are those of
  steps 0, 1, 2, ... in this order, each on the step object registered at that index; at
  the moment step 0 is run its input is a Filename record whose file name is \<^verbatim>\<open>_infile\<close>;
  and at the moment step \<open>k > 0\<close> is run its input is the output of step \<open>k - 1\<close>,
  when the step is not the same object as step 0, which is so whenever no step object
  is registered twice.
\<close>

lemma process_step_inputs:
  assumes "process E gp = Inr (b, gp', calls)" and "k < length calls"
  shows "fst (calls ! k) = k \<and> k < length (steps gp)
     \<and> fst (snd (calls ! k)) = steps gp ! k
     \<and> (k = 0 \<longrightarrow> getInput (snd (snd (calls ! k)) (steps gp ! 0))
                    = Some \<lparr>data_type = Filename, filename = infile gp\<rparr>)
     \<and> (0 < k \<and> (steps gp ! k \<noteq> steps gp ! 0 \<or> distinct (steps gp)) \<longrightarrow>
           getInput (snd (snd (calls ! k)) (steps gp ! k))
             = getOutput (snd (snd (calls ! k)) (steps gp ! (k - 1))))"
proof -
  define infile_data where "infile_data = \<lparr>data_type = Filename, filename = infile gp\<rparr>"
  define outfile_data where "outfile_data = \<lparr>data_type = Filename, filename = outfile gp\<rparr>"
  define \<sigma>1 where
    "\<sigma>1 = (objects gp)(hd (steps gp) := setInput (Some infile_data) (objects gp (hd (steps gp))))"
  define \<sigma>2 where
    "\<sigma>2 = \<sigma>1(last (steps gp) := setOutput (Some outfile_data) (\<sigma>1 (last (steps gp))))"
  from assms(2) have calls: "calls \<noteq> []" by auto
  from assms(1) calls have ne: "steps gp \<noteq> []"
    by (auto simp: process_def)
  from assms(1) calls ne obtain \<sigma>' where
    t: "transform_loop E (steps gp) 0 None (steps gp) \<sigma>2 [] = Inr (b, \<sigma>', calls)"
    unfolding process_def Let_def transform_def infile_data_def [symmetric]
      outfile_data_def [symmetric]
    by (auto simp: SET_PP_ERR_def \<sigma>1_def \<sigma>2_def split: variant.splits if_splits sum.splits)
  from transform_loop_calls [OF t] have idx: "map fst calls = [0 ..< length calls]"
    and all: "\<forall>c \<in> set calls. chained (steps gp) c \<and> (fst c = 0 \<longrightarrow> snd (snd c) = \<sigma>2)"
    by auto
  from idx assms(2) have k: "fst (calls ! k) = k"
    by (metis add_0 nth_map nth_upt)
  from all assms(2) have c: "chained (steps gp) (calls ! k)"
    and z: "fst (calls ! k) = 0 \<longrightarrow> snd (snd (calls ! k)) = \<sigma>2"
    by auto
  have first: "getInput (\<sigma>2 (steps gp ! 0)) = Some infile_data"
    using ne by (simp add: \<sigma>1_def \<sigma>2_def setInput_def setOutput_def hd_conv_nth)
  have d: "steps gp ! k \<noteq> steps gp ! 0" if "0 < k" "distinct (steps gp)" "k < length (steps gp)"
    using that ne nth_eq_iff_index_eq [of "steps gp" k 0] by auto
  obtain j step s where call: "calls ! k = (j, step, s)" by (cases "calls ! k") auto
  from c k z first d show ?thesis
    by (auto simp: call chained_def infile_data_def)
qed

text \<open>
  Claim C4: in every execution of the pipeline, at the moment step \<open>k > 0\<close> is run its
  input is the output of step \<open>k - 1\<close>, and the input of step 0 is a Filename record
  whose file name is \<^verbatim>\<open>_infile\<close>. With three step objects registered once each this is
  what happens: \<^verbatim>\<open>run\<close> is called on the objects 0, 1 and 2 in this order, step 0 with
  the input file as its input, and steps 1 and 2 with the buffer the step before wrote.
  \<^verbatim>\<open>transform\<close> tells the first step by comparing the step pointer with
  \<^verbatim>\<open>steps.at(0)\<close>, and not by its position: with one step object registered twice, the
  second run of it (step 1) is taken for the first step, its input is not set, and it
  runs with the input file as its input while the output of step 0 is the buffer the
  first run wrote. Each call is shown as \<open>call_view\<close> gives it: index, step object, input
  of that object, output of the step before.
\<close>

theorem C4_step_registered_twice:
  "map_option (\<lambda>r. map (call_view [0, 1, 2]) (snd (snd r)))
       (returned (process sample_pp_extern (sample_preprocessor [0, 1, 2])))
     = Some [(0, 0, Some \<lparr>data_type = Filename, filename = ''foo.cbl''\<rparr>, None),
             (1, 1, Some \<lparr>data_type = Buffer, filename = ''out0''\<rparr>,
                    Some \<lparr>data_type = Buffer, filename = ''out0''\<rparr>),
             (2, 2, Some \<lparr>data_type = Buffer, filename = ''out1''\<rparr>,
                    Some \<lparr>data_type = Buffer, filename = ''out1''\<rparr>)]
   \<and> map_option (\<lambda>r. map (call_view [0, 0]) (snd (snd r)))
       (returned (process sample_pp_extern (sample_preprocessor [0, 0])))
     = Some [(0, 0, Some \<lparr>data_type = Filename, filename = ''foo.cbl''\<rparr>,
                    Some \<lparr>data_type = Filename, filename = ''foo.cob''\<rparr>),
             (1, 0, Some \<lparr>data_type = Filename, filename = ''foo.cbl''\<rparr>,
                    Some \<lparr>data_type = Buffer, filename = ''out0''\<rparr>)]"
  by (simp add: process_def transform_def Let_def sample_pp_extern_def sample_preprocessor_def
      getOpt_def setInput_def setOutput_def returned_def call_view_def digit_char_def)

subsection \<open>Claim C9: the output file alias\<close>

text \<open>
  Claim C9: when the stem of the output file argument is \<^verbatim>\<open>@\<close>, the output file is the
  base name of the input file with the given extension, so that \<^verbatim>\<open>-i foo.cbl -o @.cob\<close>
  writes \<^verbatim>\<open>foo.cob\<close>. \<^verbatim>\<open>extension()\<close> gives \<^verbatim>\<open>.cob\<close>, with its period, and \<^verbatim>\<open>main\<close>
  puts one more period before it: the output file is \<^verbatim>\<open>foo..cob\<close>.
\<close>

theorem C9_alias_double_period:
  "is_alias ''@.cob'' [] = (True, ''.cob'')
   \<and> get_basename ''foo.cbl'' = ''foo''
   \<and> main (sample_options ''foo.cbl'' ''@.cob'') = Run ''foo.cbl'' ''foo..cob''"
  by (simp add: main_def sample_options_def path_filename_def path_extension_def path_stem_def
      is_alias_def get_basename_def Let_def)

text \<open>
  The second half of the claim holds: when the output file, after the alias is resolved,
  is the input file, \<^verbatim>\<open>main\<close> writes the message and returns 1.
\<close>

lemma main_same_file:
  assumes "path_stem f \<noteq> ''@''"
  shows "main (sample_options f f)
           = Exit 1 [''ERROR: input and output file must be different'']"
  using assms by (simp add: main_def sample_options_def is_alias_def)

lemma main_same_file_sample:
  "main (sample_options ''foo.cbl'' ''foo.cbl'')
     = Exit 1 [''ERROR: input and output file must be different'']"
  by (simp add: main_def sample_options_def path_filename_def path_extension_def path_stem_def
      is_alias_def Let_def)

end
